theory Spec2Isabelle
  imports Complex_Main "HOL-Library.Log_Nat"
begin

section \<open>JavaScript numbers\<close>

text \<open>
  A JavaScript number is an IEEE 754 binary64 value. The finite ones are rationals, and each
  arithmetic operation returns the exact result rounded to the nearest representable value,
  ties to the even significand. \<open>fl\<close> is that rounding for magnitudes in the normal range
  (between \<open>2^-1022\<close> and \<open>2^1024\<close>), which is where the counters, scores and time
  values of this program live: the significand has 53 bits, so a value in the binade
  \<open>[2^e, 2^(e+1))\<close> is a multiple of \<open>2^(e-52)\<close>.
\<close>

definition pow2 :: "int \<Rightarrow> rat" where
  "pow2 e = (if 0 \<le> e then 2 ^ nat e else 1 / 2 ^ nat (- e))"

definition binade :: "rat \<Rightarrow> int" where
  "binade x = (case quotient_of x of (p, q) \<Rightarrow>
     (let d = bitlen p - bitlen q in if pow2 d \<le> x then d else d - 1))"

definition rne :: "rat \<Rightarrow> int" where
  "rne x = (let f = \<lfloor>x\<rfloor>; r = x - of_int f in
     if r < 1 / 2 then f else if 1 / 2 < r then f + 1 else if even f then f else f + 1)"

definition fl :: "rat \<Rightarrow> rat" where
  "fl x = (if x = 0 then 0 else
     (let u = pow2 (binade \<bar>x\<bar> - 52) in of_int (rne (x / u)) * u))"

text \<open>\<open>Math.round\<close>: the nearest integer, a tie going towards \<open>+\<infinity>\<close>.\<close>

definition Math_round :: "rat \<Rightarrow> int" where
  "Math_round x = \<lfloor>x + 1 / 2\<rfloor>"

section \<open>Course records: progress percentage and average score\<close>

record CourseReport =
  count :: int
  allCount :: int

text \<open>
  A report detail. Its numbers are doubles, here the rationals the format holds. The score
  is declared \<^verbatim>\<open>number | null\<close>; a detail that the portal sends without a score has the
  score \<open>undefined\<close>.
\<close>

datatype score_value = Score_null | Score_undefined | Score rat

record CourseReportDetail =
  number :: rat
  progress :: rat
  score :: score_value
  expiration :: string

text \<open>
  \<^verbatim>\<open>if (report.allCount === 0) return 0;
  return Math.round((report.count / report.allCount) * 100);\<close>
  The quotient is rounded to a double before it is multiplied by 100, and the product is
  rounded again.
\<close>

definition calculateProgressPercentage :: "CourseReport \<Rightarrow> int" where
  "calculateProgressPercentage report =
     (if allCount report = 0 then 0
      else Math_round (fl (fl (of_int (count report) / of_int (allCount report)) * 100)))"

text \<open>
  \<^verbatim>\<open>reportDetails.filter((detail) => detail.score !== null && detail.progress === 100)\<close>,
  then \<^verbatim>\<open>reduce((sum, detail) => sum + (detail.score || 0), 0)\<close> and
  \<^verbatim>\<open>Math.round(totalScore / scoresWithValues.length)\<close>; the result \<open>null\<close> is \<open>None\<close>.
  Every sum is rounded to a double, and so is the quotient.
\<close>

definition scoresWithValues :: "CourseReportDetail list \<Rightarrow> CourseReportDetail list" where
  "scoresWithValues reportDetails =
     filter (\<lambda>detail. score detail \<noteq> Score_null \<and> progress detail = 100) reportDetails"

definition score_or_0 :: "CourseReportDetail \<Rightarrow> rat" where
  "score_or_0 detail = (case score detail of Score s \<Rightarrow> s | _ \<Rightarrow> 0)"

definition totalScore :: "CourseReportDetail list \<Rightarrow> rat" where
  "totalScore ds = foldl (\<lambda>sum detail. fl (sum + score_or_0 detail)) 0 ds"

definition calculateAverageScore :: "CourseReportDetail list \<Rightarrow> int option" where
  "calculateAverageScore reportDetails =
     (let ds = scoresWithValues reportDetails in
      if length ds = 0 then None
      else Some (Math_round (fl (totalScore ds / of_nat (length ds)))))"

text \<open>
  The specification's wording of the average: the scores of the entries that are scored and
  complete, and the mean of a list of scores rounded to the nearest integer.
\<close>

definition qualifying_scores :: "CourseReportDetail list \<Rightarrow> rat list" where
  "qualifying_scores ds =
     List.map_filter
       (\<lambda>d. if progress d = 100 then (case score d of Score s \<Rightarrow> Some s | _ \<Rightarrow> None) else None)
       ds"

definition rounded_mean :: "rat list \<Rightarrow> int option" where
  "rounded_mean xs =
     (if xs = [] then None else Some (round (sum_list xs / rat_of_nat (length xs))))"

text \<open>
  Two lists of report details: the one of the specification, with the scores 80, \<open>null\<close>
  and 60, and four complete entries with the scores 97.2, 51, 34.2 and 35.6 (each the double
  nearest to the decimal).
\<close>

definition scored_example :: "CourseReportDetail list" where
  "scored_example =
     [\<lparr>number = 1, progress = 100, score = Score 80, expiration = []\<rparr>,
      \<lparr>number = 2, progress = 100, score = Score_null, expiration = []\<rparr>,
      \<lparr>number = 3, progress = 50, score = Score 60, expiration = []\<rparr>]"

definition decimal_example :: "CourseReportDetail list" where
  "decimal_example =
     [\<lparr>number = 1, progress = 100, score = Score (fl (972 / 10)), expiration = []\<rparr>,
      \<lparr>number = 2, progress = 100, score = Score 51, expiration = []\<rparr>,
      \<lparr>number = 3, progress = 100, score = Score (fl (342 / 10)), expiration = []\<rparr>,
      \<lparr>number = 4, progress = 100, score = Score (fl (356 / 10)), expiration = []\<rparr>]"
section \<open>Strings, errors and URI components\<close>

text \<open>
  A JavaScript string is modelled by the bytes of its UTF-8 encoding, so every ASCII
  character is one \<open>char\<close> and comparing, splitting on an ASCII separator and concatenating
  are what they are on the original. A string with an unpaired surrogate has no UTF-8
  encoding; it is the kind of byte sequence that \<open>well_formed\<close> below rejects.
\<close>

datatype js_error = Error string | TypeError | URIError | SyntaxError

definition code :: "char \<Rightarrow> nat" where
  "code c = of_char c"

text \<open>Number of leading one bits of a byte (5 stands for five or more).\<close>

definition leading_ones :: "char \<Rightarrow> nat" where
  "leading_ones b =
     (if code b < 128 then 0 else if code b < 192 then 1 else if code b < 224 then 2
      else if code b < 240 then 3 else if code b < 248 then 4 else 5)"

definition is_cont :: "char \<Rightarrow> bool" where
  "is_cont b = (128 \<le> code b \<and> code b < 192)"

text \<open>
  The octets of one code point beyond ASCII, as the Unicode standard's table of well-formed
  byte sequences has them: no overlong form, no surrogate, nothing above U+10FFFF.
\<close>

fun valid_char :: "string \<Rightarrow> bool" where
  "valid_char [a, b] = (194 \<le> code a \<and> code a < 224 \<and> is_cont b)"
| "valid_char [a, b, c] =
     (224 \<le> code a \<and> code a < 240 \<and> is_cont b \<and> is_cont c
      \<and> (code a = 224 \<longrightarrow> 160 \<le> code b) \<and> (code a = 237 \<longrightarrow> code b < 160))"
| "valid_char [a, b, c, d] =
     (240 \<le> code a \<and> code a < 245 \<and> is_cont b \<and> is_cont c \<and> is_cont d
      \<and> (code a = 240 \<longrightarrow> 144 \<le> code b) \<and> (code a = 244 \<longrightarrow> code b < 144))"
| "valid_char _ = False"

function well_formed :: "string \<Rightarrow> bool" where
  "well_formed [] = True"
| "well_formed (b # bs) =
     (let n = leading_ones b in
      if n = 0 then well_formed bs
      else if valid_char (take n (b # bs)) then well_formed (drop (n - 1) bs)
      else False)"
  by pat_completeness auto
termination
  by (relation "measure length") auto

subsection \<open>\<open>String.prototype.trim\<close> and \<open>split\<close>\<close>

text \<open>
  \<open>ws_len s\<close> is the number of bytes of the white space or line terminator character at the
  head of \<open>s\<close>, and 0 when \<open>s\<close> does not start with one: TAB, LF, VT, FF, CR, SP, U+00A0,
  U+1680, U+2000 to U+200A, U+2028, U+2029, U+202F, U+205F, U+3000 and U+FEFF.
\<close>

definition ascii_ws :: "char \<Rightarrow> bool" where
  "ascii_ws c = (code c = 32 \<or> (9 \<le> code c \<and> code c \<le> 13))"

fun ws_len :: "string \<Rightarrow> nat" where
  "ws_len [] = 0"
| "ws_len [a] = (if ascii_ws a then 1 else 0)"
| "ws_len [a, b] = (if ascii_ws a then 1 else if code a = 194 \<and> code b = 160 then 2 else 0)"
| "ws_len (a # b # c # _) =
     (if ascii_ws a then 1
      else if code a = 194 \<and> code b = 160 then 2
      else if code a = 225 \<and> code b = 154 \<and> code c = 128 then 3
      else if code a = 226 \<and> code b = 128
              \<and> ((128 \<le> code c \<and> code c \<le> 138) \<or> code c = 168 \<or> code c = 169 \<or> code c = 175)
           then 3
      else if code a = 226 \<and> code b = 129 \<and> code c = 159 then 3
      else if code a = 227 \<and> code b = 128 \<and> code c = 128 then 3
      else if code a = 239 \<and> code b = 187 \<and> code c = 191 then 3
      else 0)"

text \<open>The same, read backwards from the end of the string (given reversed).\<close>

fun ws_len_rev :: "string \<Rightarrow> nat" where
  "ws_len_rev [] = 0"
| "ws_len_rev [c] = (if ascii_ws c then 1 else 0)"
| "ws_len_rev [c, b] = (if ascii_ws c then 1 else if ws_len [b, c] = 2 then 2 else 0)"
| "ws_len_rev (c # b # a # _) =
     (if ascii_ws c then 1
      else if ws_len [b, c] = 2 then 2
      else if ws_len [a, b, c] = 3 then 3 else 0)"

function trimStart :: "string \<Rightarrow> string" where
  "trimStart s = (if ws_len s = 0 then s else trimStart (drop (ws_len s) s))"
  by pat_completeness auto
termination
proof (relation "measure length")
  fix s :: string
  assume "ws_len s \<noteq> 0"
  then show "(drop (ws_len s) s, s) \<in> measure length" by (cases s) auto
qed simp

function trimEnd_rev :: "string \<Rightarrow> string" where
  "trimEnd_rev s = (if ws_len_rev s = 0 then s else trimEnd_rev (drop (ws_len_rev s) s))"
  by pat_completeness auto
termination
proof (relation "measure length")
  fix s :: string
  assume "ws_len_rev s \<noteq> 0"
  then show "(drop (ws_len_rev s) s, s) \<in> measure length" by (cases s) auto
qed simp

declare trimStart.simps [simp del] trimEnd_rev.simps [simp del]

definition trim :: "string \<Rightarrow> string" where
  "trim s = rev (trimEnd_rev (rev (trimStart s)))"

text \<open>\<open>s.split(c)\<close> for a one-character separator: never empty, \<open>"".split(c)\<close> is \<open>[""]\<close>.\<close>

fun split :: "char \<Rightarrow> string \<Rightarrow> string list" where
  "split sep [] = [[]]"
| "split sep (c # cs) =
     (if c = sep then [] # split sep cs
      else (case split sep cs of p # ps \<Rightarrow> (c # p) # ps | [] \<Rightarrow> [[c]]))"

text \<open>\<open>parts.join(sep)\<close>.\<close>

fun join :: "string \<Rightarrow> string list \<Rightarrow> string" where
  "join sep [] = []"
| "join sep [p] = p"
| "join sep (p # q # ps) = p @ sep @ join sep (q # ps)"

subsection \<open>\<open>encodeURIComponent\<close> and \<open>decodeURIComponent\<close>\<close>

text \<open>
  \<open>encodeURIComponent\<close> keeps the unreserved characters (letters, digits and
  \<^verbatim>\<open>- _ . ! ~ * ' ( )\<close>) and writes every other character as the \<^verbatim>\<open>%XX\<close> escapes of its
  UTF-8 octets, in upper-case hexadecimal. It throws a URIError at an unpaired surrogate.
\<close>

definition uriUnescaped :: "char \<Rightarrow> bool" where
  "uriUnescaped c =
     ((65 \<le> code c \<and> code c \<le> 90) \<or> (97 \<le> code c \<and> code c \<le> 122)
      \<or> (48 \<le> code c \<and> code c \<le> 57)
      \<or> code c \<in> {45, 95, 46, 33, 126, 42, 39, 40, 41})"

definition hexdigit :: "nat \<Rightarrow> char" where
  "hexdigit d = (if d < 10 then char_of (48 + d) else char_of (55 + d))"

definition hexval :: "char \<Rightarrow> nat option" where
  "hexval c =
     (if 48 \<le> code c \<and> code c \<le> 57 then Some (code c - 48)
      else if 65 \<le> code c \<and> code c \<le> 70 then Some (code c - 55)
      else if 97 \<le> code c \<and> code c \<le> 102 then Some (code c - 87)
      else None)"

definition encode_octet :: "char \<Rightarrow> string" where
  "encode_octet b =
     (if uriUnescaped b then [b]
      else [CHR ''%'', hexdigit (code b div 16), hexdigit (code b mod 16)])"

definition encode_octets :: "string \<Rightarrow> string" where
  "encode_octets s = concat (map encode_octet s)"

definition encodeURIComponent :: "string \<Rightarrow> js_error + string" where
  "encodeURIComponent s = (if well_formed s then Inr (encode_octets s) else Inl URIError)"

text \<open>
  \<open>decodeURIComponent\<close>, the \<open>Decode\<close> operation of the language standard with an empty
  reserved set: a character other than \<^verbatim>\<open>%\<close> is copied; \<^verbatim>\<open>%XX\<close> gives an octet \<open>B\<close>; an
  octet below 128 is the character itself; otherwise the number \<open>n\<close> of leading one bits
  says how many octets the character has, the other \<open>n - 1\<close> must follow as \<^verbatim>\<open>%XX\<close>
  escapes, and the \<open>n\<close> octets must be the UTF-8 encoding of a code point. Anything else
  is a URIError.
\<close>

fun pct_octet :: "string \<Rightarrow> char option" where
  "pct_octet (p # h # l # _) =
     (if p = CHR ''%'' then
        (case (hexval h, hexval l) of
           (Some x, Some y) \<Rightarrow> Some (char_of (16 * x + y))
         | _ \<Rightarrow> None)
      else None)"
| "pct_octet _ = None"

fun pct_octets :: "nat \<Rightarrow> string \<Rightarrow> string option" where
  "pct_octets 0 s = Some []"
| "pct_octets (Suc k) s =
     (case pct_octet s of
        None \<Rightarrow> None
      | Some b \<Rightarrow> (case pct_octets k (drop 3 s) of None \<Rightarrow> None | Some bs \<Rightarrow> Some (b # bs)))"

function decodeURIComponent :: "string \<Rightarrow> js_error + string" where
  "decodeURIComponent [] = Inr []"
| "decodeURIComponent (c # cs) =
     (if c \<noteq> CHR ''%'' then
        (case decodeURIComponent cs of Inl e \<Rightarrow> Inl e | Inr r \<Rightarrow> Inr (c # r))
      else
        (case pct_octet (c # cs) of
           None \<Rightarrow> Inl URIError
         | Some b \<Rightarrow>
             (let n = leading_ones b in
              if n = 0 then
                (case decodeURIComponent (drop 2 cs) of Inl e \<Rightarrow> Inl e | Inr r \<Rightarrow> Inr (b # r))
              else if n = 1 \<or> 4 < n then Inl URIError
              else
                (case pct_octets (n - 1) (drop 2 cs) of
                   None \<Rightarrow> Inl URIError
                 | Some bs \<Rightarrow>
                     if valid_char (b # bs) then
                       (case decodeURIComponent (drop (2 + 3 * (n - 1)) cs) of
                          Inl e \<Rightarrow> Inl e
                        | Inr r \<Rightarrow> Inr (b # bs @ r))
                     else Inl URIError))))"
  by pat_completeness auto
termination
  by (relation "measure length") auto

section \<open>Session store\<close>

text \<open>\<open>NextAuthCookies\<close>: an optional field is \<open>None\<close> when it is \<open>undefined\<close>.\<close>

record NextAuthCookies =
  sessionToken :: "string option"
  csrfToken :: "string option"
  callbackUrl :: "string option"

definition no_cookies :: NextAuthCookies where
  "no_cookies = \<lparr>sessionToken = None, csrfToken = None, callbackUrl = None\<rparr>"

text \<open>
  One step of the loop of \<open>parseCookies\<close>:
  \<^verbatim>\<open>const [name, value] = pair.trim().split("=");\<close> takes the first two pieces, and
  \<^verbatim>\<open>if (name && value)\<close> asks for both to be non-empty strings.
\<close>

definition parse_pair :: "string \<Rightarrow> NextAuthCookies \<Rightarrow> js_error + NextAuthCookies" where
  "parse_pair pair cookies =
     (case split CHR ''='' (trim pair) of
        name # val # _ \<Rightarrow>
          if name \<noteq> [] \<and> val \<noteq> [] then
            (if name = ''__Secure-next-auth.session-token'' then
               (case decodeURIComponent val of
                  Inl e \<Rightarrow> Inl e | Inr v \<Rightarrow> Inr (cookies\<lparr>sessionToken := Some v\<rparr>))
             else if name = ''__Host-next-auth.csrf-token'' then
               (case decodeURIComponent val of
                  Inl e \<Rightarrow> Inl e | Inr v \<Rightarrow> Inr (cookies\<lparr>csrfToken := Some v\<rparr>))
             else if name = ''__Secure-next-auth.callback-url'' then
               (case decodeURIComponent val of
                  Inl e \<Rightarrow> Inl e | Inr v \<Rightarrow> Inr (cookies\<lparr>callbackUrl := Some v\<rparr>))
             else Inr cookies)
          else Inr cookies
      | _ \<Rightarrow> Inr cookies)"

fun parse_pairs :: "string list \<Rightarrow> NextAuthCookies \<Rightarrow> js_error + NextAuthCookies" where
  "parse_pairs [] cookies = Inr cookies"
| "parse_pairs (pair # pairs) cookies =
     (case parse_pair pair cookies of Inl e \<Rightarrow> Inl e | Inr c \<Rightarrow> parse_pairs pairs c)"

definition parseCookies :: "string \<Rightarrow> js_error + NextAuthCookies" where
  "parseCookies cookieString = parse_pairs (split CHR '';'' cookieString) no_cookies"

text \<open>\<^verbatim>\<open>if (this.cookies.sessionToken)\<close>: the token is defined and not the empty string.\<close>

definition present :: "string option \<Rightarrow> bool" where
  "present t = (case t of None \<Rightarrow> False | Some s \<Rightarrow> s \<noteq> [])"

definition cookie_part :: "string \<Rightarrow> string option \<Rightarrow> js_error + string list" where
  "cookie_part name t =
     (case t of
        None \<Rightarrow> Inr []
      | Some s \<Rightarrow>
          if s = [] then Inr []
          else (case encodeURIComponent s of Inl e \<Rightarrow> Inl e | Inr v \<Rightarrow> Inr [name @ ''='' @ v]))"

definition getCookieHeader :: "NextAuthCookies \<Rightarrow> js_error + string" where
  "getCookieHeader cookies =
     (case cookie_part ''__Secure-next-auth.session-token'' (sessionToken cookies) of
        Inl e \<Rightarrow> Inl e
      | Inr p1 \<Rightarrow>
     (case cookie_part ''__Host-next-auth.csrf-token'' (csrfToken cookies) of
        Inl e \<Rightarrow> Inl e
      | Inr p2 \<Rightarrow>
     (case cookie_part ''__Secure-next-auth.callback-url'' (callbackUrl cookies) of
        Inl e \<Rightarrow> Inl e
      | Inr p3 \<Rightarrow> Inr (join ''; '' (p1 @ p2 @ p3)))))"

definition isAuthenticated :: "NextAuthCookies \<Rightarrow> bool" where
  "isAuthenticated cookies = present (sessionToken cookies)"

text \<open>
  The three places that hold the session: the \<open>Cookie\<close> default header of the HTTP client,
  the tokens of the NextAuth handler, and the cookie blob of the tRPC client.
\<close>

record NLobbyApi =
  httpClient_Cookie :: "string option"
  nextAuth_cookies :: NextAuthCookies
  trpcClient_allCookies :: string

text \<open>\<open>TRPCClient.setAllCookies\<close>: an empty or blank blob clears the stored one.\<close>

definition setAllCookies :: "string \<Rightarrow> string \<Rightarrow> string" where
  "setAllCookies cookies allCookies =
     (if cookies = [] \<or> trim cookies = [] then [] else cookies)"

text \<open>
  \<open>NLobbyApi.setCookies\<close>. The result is the state after the call and the exception that
  ended it, if any: \<open>parseCookies\<close> can throw a URIError, after the header of the HTTP
  client has been set and before the other two stores are touched.
\<close>

definition setCookies :: "string \<Rightarrow> NLobbyApi \<Rightarrow> NLobbyApi \<times> js_error option" where
  "setCookies cookies api =
     (if cookies = [] \<or> trim cookies = [] then (api, None)
      else
        (let api1 = api\<lparr>httpClient_Cookie := Some cookies\<rparr> in
         case parseCookies cookies of
           Inl e \<Rightarrow> (api1, Some e)
         | Inr parsed \<Rightarrow>
             (api1\<lparr>nextAuth_cookies := parsed,
                   trpcClient_allCookies :=
                     setAllCookies cookies (trpcClient_allCookies api1)\<rparr>, None)))"

subsection \<open>Auxiliary notions for the session store\<close>

text \<open>
  A character below 128 that is not white space; a cookie pair as \<open>getCookieHeader\<close> writes
  it; a token that is absent or not empty; a token that is absent or has no unpaired
  surrogate.
\<close>

definition plain :: "char \<Rightarrow> bool" where
  "plain c = (code c < 128 \<and> \<not> ascii_ws c)"

definition pair_of :: "string \<Rightarrow> string \<Rightarrow> string" where
  "pair_of name v = name @ ''='' @ encode_octets v"

definition token_ok :: "string option \<Rightarrow> bool" where
  "token_ok t = (case t of None \<Rightarrow> True | Some s \<Rightarrow> s \<noteq> [])"

definition token_wf :: "string option \<Rightarrow> bool" where
  "token_wf t = (case t of None \<Rightarrow> True | Some s \<Rightarrow> well_formed s)"

section \<open>Dates\<close>

text \<open>
  A \<open>Date\<close> object holds a time value, the milliseconds since the epoch in UTC, or NaN
  (``Invalid Date''). The day and calendar functions are those of the language standard; all
  of them are integer arithmetic on values below \<open>2^53\<close>, which doubles carry exactly.
\<close>

datatype Date = Invalid_Date | Time_Value int

definition getTime :: "Date \<Rightarrow> int option" where
  "getTime d = (case d of Invalid_Date \<Rightarrow> None | Time_Value t \<Rightarrow> Some t)"

definition msPerDay :: int where
  "msPerDay = 86400000"



definition leap_year :: "int \<Rightarrow> bool" where
  "leap_year y = (y mod 4 = 0 \<and> (y mod 100 \<noteq> 0 \<or> y mod 400 = 0))"

definition DayFromYear :: "int \<Rightarrow> int" where
  "DayFromYear y =
     365 * (y - 1970) + (y - 1969) div 4 - (y - 1901) div 100 + (y - 1601) div 400"




text \<open>Days of the year before month \<open>m\<close> (0 is January).\<close>

definition DaysBeforeMonth :: "int \<Rightarrow> bool \<Rightarrow> int" where
  "DaysBeforeMonth m leap =
     (let l = (if leap then 1 else 0) in
      if m = 0 then 0 else if m = 1 then 31 else if m = 2 then 59 + l
      else if m = 3 then 90 + l else if m = 4 then 120 + l else if m = 5 then 151 + l
      else if m = 6 then 181 + l else if m = 7 then 212 + l else if m = 8 then 243 + l
      else if m = 9 then 273 + l else if m = 10 then 304 + l else 334 + l)"



definition MakeTime :: "int \<Rightarrow> int \<Rightarrow> int \<Rightarrow> int \<Rightarrow> int" where
  "MakeTime hour minute sec ms = hour * 3600000 + minute * 60000 + sec * 1000 + ms"

definition MakeDay :: "int \<Rightarrow> int \<Rightarrow> int \<Rightarrow> int" where
  "MakeDay year month date =
     (let ym = year + month div 12; mn = month mod 12 in
      DayFromYear ym + DaysBeforeMonth mn (leap_year ym) + date - 1)"

definition MakeDate :: "int \<Rightarrow> int \<Rightarrow> int" where
  "MakeDate day time = day * msPerDay + time"

definition TimeClip :: "int \<Rightarrow> Date" where
  "TimeClip t = (if 8640000000000000 < \<bar>t\<bar> then Invalid_Date else Time_Value t)"

definition DaysInMonth :: "int \<Rightarrow> int \<Rightarrow> int" where
  "DaysInMonth y m =
     (if m = 2 then (if leap_year y then 29 else 28)
      else if m = 4 \<or> m = 6 \<or> m = 9 \<or> m = 11 then 30 else 31)"

subsection \<open>The host\<close>

text \<open>A parsed document: elements with a tag name, attributes and children, and text.\<close>

datatype node = Element string "(string \<times> string) list" "node list" | Text string

text \<open>
  What the program takes from its host: the offset of local time from UTC in milliseconds,
  the \<open>LocalTZA(t, isUTC)\<close> of the language standard, which depends on the instant: \<open>t\<close>
  is a UTC time when \<open>isUTC\<close> is true and a local time otherwise, and a local time that a
  change of the offset skips is read with the offset before the change; the result of
  \<open>Date.parse\<close> on the strings that are not in one of the two formats below, which the
  standard leaves to the implementation; the clock, what each reading of it in turn returns
  (\<^verbatim>\<open>new Date()\<close>, counted from 0 in a run); the strings that
  \<open>Math.random().toString()\<close> returns, one per call; the text of a number that is not
  an integer; the document that \<open>cheerio.load\<close> makes of a page; and the configured base
  URL of the portal.
\<close>

record host =
  LocalTZA :: "int \<Rightarrow> bool \<Rightarrow> int"
  other_parse :: "string \<Rightarrow> int option"
  now :: "nat \<Rightarrow> int"
  random_string :: "nat \<Rightarrow> string"
  fraction_toString :: "rat \<Rightarrow> string"
  cheerio_load :: "string \<Rightarrow> node list"
  baseUrl :: string


definition UTC :: "host \<Rightarrow> int \<Rightarrow> int" where
  "UTC h t = t - LocalTZA h t False"

text \<open>
  A host nine hours ahead of UTC at every instant that reads no other date format and finds
  no element in any page, with the default base URL; its clock advances by a millisecond
  from one reading to the next.
\<close>

definition example_host :: host where
  "example_host =
     \<lparr>LocalTZA = (\<lambda>t isUTC. 32400000), other_parse = (\<lambda>s. None), now = (\<lambda>k. 1700000000000 + int k),
      random_string = (\<lambda>i. ''0.5''), fraction_toString = (\<lambda>r. ''0.5''),
      cheerio_load = (\<lambda>html. []), baseUrl = ''https://nlobby.nnn.ed.jp''\<rparr>"


subsection \<open>\<open>Date.parse\<close>\<close>

definition is_digit :: "char \<Rightarrow> bool" where
  "is_digit c = (48 \<le> code c \<and> code c \<le> 57)"

definition digits_value :: "string \<Rightarrow> int option" where
  "digits_value s =
     (if s \<noteq> [] \<and> list_all is_digit s
      then Some (foldl (\<lambda>n c. 10 * n + (int (code c) - 48)) 0 s) else None)"

text \<open>\<^verbatim>\<open>YYYY-MM-DD\<close>, with the month and the day of the month in range.\<close>

definition parse_iso_date :: "string \<Rightarrow> (int \<times> int \<times> int) option" where
  "parse_iso_date s =
     (if length s = 10 \<and> s ! 4 = CHR ''-'' \<and> s ! 7 = CHR ''-'' then
        (case (digits_value (take 4 s), digits_value (take 2 (drop 5 s)),
               digits_value (drop 8 s)) of
           (Some y, Some m, Some d) \<Rightarrow>
             if 1 \<le> m \<and> m \<le> 12 \<and> 1 \<le> d \<and> d \<le> DaysInMonth y m then Some (y, m, d) else None
         | _ \<Rightarrow> None)
      else None)"

text \<open>\<^verbatim>\<open>HH:mm:ss\<close>, from \<^verbatim>\<open>00:00:00\<close> to \<^verbatim>\<open>24:00:00\<close>.\<close>

definition parse_iso_time :: "string \<Rightarrow> (int \<times> int \<times> int) option" where
  "parse_iso_time s =
     (if length s = 8 \<and> s ! 2 = CHR '':'' \<and> s ! 5 = CHR '':'' then
        (case (digits_value (take 2 s), digits_value (take 2 (drop 3 s)),
               digits_value (drop 6 s)) of
           (Some h, Some m, Some sec) \<Rightarrow>
             if (h \<le> 23 \<and> m \<le> 59 \<and> sec \<le> 59) \<or> (h = 24 \<and> m = 0 \<and> sec = 0)
             then Some (h, m, sec) else None
         | _ \<Rightarrow> None)
      else None)"

text \<open>
  \<open>Date.parse\<close>: a date alone is a UTC time, a date with a time and no offset is a local
  time; every other string is for the host to read.
\<close>

definition Date_parse :: "host \<Rightarrow> string \<Rightarrow> int option" where
  "Date_parse h s =
     (case parse_iso_date s of
        Some (y, m, d) \<Rightarrow> Some (MakeDate (MakeDay y (m - 1) d) 0)
      | None \<Rightarrow>
          if length s = 19 \<and> s ! 10 = CHR ''T'' then
            (case (parse_iso_date (take 10 s), parse_iso_time (drop 11 s)) of
               (Some (y, m, d), Some (hh, mm, ss)) \<Rightarrow>
                 Some (UTC h (MakeDate (MakeDay y (m - 1) d) (MakeTime hh mm ss 0)))
             | _ \<Rightarrow> other_parse h s)
          else other_parse h s)"

text \<open>\<^verbatim>\<open>new Date(string)\<close>.\<close>

definition Date_of_string :: "host \<Rightarrow> string \<Rightarrow> Date" where
  "Date_of_string h s = (case Date_parse h s of None \<Rightarrow> Invalid_Date | Some t \<Rightarrow> TimeClip t)"




section \<open>Date ranges\<close>

record CalendarDateRange =
  range_from :: Date
  range_to :: Date

text \<open>
  \<open>createDateRange(fromDate, toDate)\<close>; each argument is a string or a \<open>Date\<close>. The
  difference of the time values and its quotient by the milliseconds of a day are computed
  in double precision.
\<close>

definition too_close :: string where
  "too_close = ''To date must be at least 1 day after from date. ''
     @ ''For single day queries, use period='' @ [CHR 0x22] @ ''today''
     @ [CHR 0x22] @ '' or single from_date parameter.''"

definition to_Date :: "host \<Rightarrow> string + Date \<Rightarrow> Date" where
  "to_Date h a = (case a of Inl s \<Rightarrow> Date_of_string h s | Inr d \<Rightarrow> d)"

definition createDateRange ::
  "host \<Rightarrow> string + Date \<Rightarrow> string + Date \<Rightarrow> js_error + CalendarDateRange" where
  "createDateRange h fromDate toDate =
     (let from = to_Date h fromDate; to = to_Date h toDate in
      case (getTime from, getTime to) of
        (Some tf, Some tt) \<Rightarrow>
          (let diffTime = fl (of_int tt - of_int tf);
               diffDays = fl (diffTime / (1000 * 60 * 60 * 24))
           in if diffDays < 1 then
                Inl (Error too_close)
              else Inr \<lparr>range_from = from, range_to = to\<rparr>)
      | _ \<Rightarrow> Inl (Error ''Invalid date format provided''))"

text \<open>
  The specification's wording of the validation, on the two dates themselves: an error when
  one of them is ``Invalid Date'' or \<open>to\<close> is less than a day after \<open>from\<close>, and the range
  of the two dates otherwise.
\<close>

definition validated_range :: "Date \<Rightarrow> Date \<Rightarrow> js_error + CalendarDateRange" where
  "validated_range from to =
     (case (from, to) of
        (Time_Value tf, Time_Value tt) \<Rightarrow>
          if tt - tf < 24 * 60 * 60 * 1000 then Inl (Error too_close)
          else Inr \<lparr>range_from = from, range_to = to\<rparr>
      | _ \<Rightarrow> Inl (Error ''Invalid date format provided''))"

text \<open>Every time value of a \<open>Date\<close> is within the range that \<open>TimeClip\<close> leaves.\<close>

definition is_Date :: "Date \<Rightarrow> bool" where
  "is_Date d = (case d of Invalid_Date \<Rightarrow> True | Time_Value t \<Rightarrow> \<bar>t\<bar> \<le> 8640000000000000)"

section \<open>Values\<close>

text \<open>
  The values that \<open>JSON.parse\<close> returns, and \<open>undefined\<close>. An object is the list of its
  own properties in the order of their creation, with distinct keys.
\<close>

datatype jsval =
  Undefined | Null | Bool bool | Num rat | Str string | Arr "jsval list"
  | Obj "(string \<times> jsval) list"

fun truthy :: "jsval \<Rightarrow> bool" where
  "truthy Undefined = False"
| "truthy Null = False"
| "truthy (Bool b) = b"
| "truthy (Num r) = (r \<noteq> 0)"
| "truthy (Str s) = (s \<noteq> [])"
| "truthy (Arr xs) = True"
| "truthy (Obj ps) = True"

text \<open>\<open>a || b\<close>.\<close>

definition or_else :: "jsval \<Rightarrow> jsval \<Rightarrow> jsval" where
  "or_else a b = (if truthy a then a else b)"

function nat_toString :: "nat \<Rightarrow> string" where
  "nat_toString n =
     (if n < 10 then [char_of (48 + n)]
      else nat_toString (n div 10) @ [char_of (48 + n mod 10)])"
  by pat_completeness auto
termination
  by (relation "measure id") auto

declare nat_toString.simps [simp del]

definition int_toString :: "int \<Rightarrow> string" where
  "int_toString i = (if i < 0 then CHR ''-'' # nat_toString (nat (- i)) else nat_toString (nat i))"

text \<open>
  \<open>Number::toString\<close>: an integer below \<open>10^21\<close> in absolute value is written in decimal
  digits; the digits of any other number are the host's.
\<close>

definition Number_toString :: "host \<Rightarrow> rat \<Rightarrow> string" where
  "Number_toString h r =
     (if r = of_int \<lfloor>r\<rfloor> \<and> \<bar>r\<bar> < 10 ^ 21 then int_toString \<lfloor>r\<rfloor> else fraction_toString h r)"

text \<open>
  \<open>ToString\<close>; an array is its elements joined by commas, \<open>null\<close> and \<open>undefined\<close>
  empty. An object that has a property of its own named \<open>toString\<close> or \<open>valueOf\<close> in
  place of the inherited method is outside the model.
\<close>

fun ToString :: "host \<Rightarrow> jsval \<Rightarrow> string"
  and ToString_elements :: "host \<Rightarrow> jsval list \<Rightarrow> string list" where
  "ToString h Undefined = ''undefined''"
| "ToString h Null = ''null''"
| "ToString h (Bool b) = (if b then ''true'' else ''false'')"
| "ToString h (Num r) = Number_toString h r"
| "ToString h (Str s) = s"
| "ToString h (Arr xs) = join '','' (ToString_elements h xs)"
| "ToString h (Obj ps) = ''[object Object]''"
| "ToString_elements h [] = []"
| "ToString_elements h (x # xs) =
     (if x = Undefined \<or> x = Null then [] else ToString h x) # ToString_elements h xs"

text \<open>
  An array index: the canonical decimal text of an integer from 0 to \<open>2^32 - 2\<close>.
\<close>

definition array_index :: "string \<Rightarrow> nat option" where
  "array_index k =
     (case digits_value k of
        None \<Rightarrow> None
      | Some i \<Rightarrow> if nat_toString (nat i) = k \<and> i < 4294967295 then Some (nat i) else None)"

text \<open>
  Reading a property of a value that is neither \<open>null\<close> nor \<open>undefined\<close>. The names that
  the program reads from parsed data (\<open>id\<close>, \<open>title\<close>, \<open>news\<close>, \<open>start\<close> and so on) are not
  properties of any prototype, so an object has them only as own properties, an array has
  \<open>length\<close> and its indices, and a string, a number or a boolean has none of them.
\<close>

fun property :: "jsval \<Rightarrow> string \<Rightarrow> jsval" where
  "property (Obj ps) k = (case map_of ps k of None \<Rightarrow> Undefined | Some v \<Rightarrow> v)"
| "property (Arr xs) k =
     (if k = ''length'' then Num (of_nat (length xs))
      else (case array_index k of
              None \<Rightarrow> Undefined
            | Some i \<Rightarrow> if i < length xs then xs ! i else Undefined))"
| "property _ k = Undefined"

text \<open>\<open>k in v\<close> for an object or an array \<open>v\<close>.\<close>

fun has_property :: "string \<Rightarrow> jsval \<Rightarrow> bool" where
  "has_property k (Obj ps) = (map_of ps k \<noteq> None)"
| "has_property k (Arr xs) =
     (k = ''length'' \<or> (case array_index k of None \<Rightarrow> False | Some i \<Rightarrow> i < length xs))"
| "has_property k _ = False"

text \<open>
  \<open>Object.entries\<close>: the properties whose key is an array index come first, in ascending
  order of the index, then the others in the order of their creation.
\<close>

definition index_key :: "string \<times> 'a \<Rightarrow> nat" where
  "index_key p = (case array_index (fst p) of None \<Rightarrow> 0 | Some i \<Rightarrow> i)"

definition own_order :: "(string \<times> 'a) list \<Rightarrow> (string \<times> 'a) list" where
  "own_order ps =
     sort_key index_key (filter (\<lambda>p. array_index (fst p) \<noteq> None) ps)
     @ filter (\<lambda>p. array_index (fst p) = None) ps"

fun number_from :: "nat \<Rightarrow> 'a list \<Rightarrow> (string \<times> 'a) list" where
  "number_from i [] = []"
| "number_from i (x # xs) = (nat_toString i, x) # number_from (Suc i) xs"

text \<open>
  The UTF-16 code units of a string, each as a string: a character beyond U+FFFF is a pair
  of surrogates.
\<close>

definition utf8_3 :: "nat \<Rightarrow> string" where
  "utf8_3 n =
     [char_of (224 + n div 4096), char_of (128 + n div 64 mod 64), char_of (128 + n mod 64)]"

function code_units :: "string \<Rightarrow> string list" where
  "code_units [] = []"
| "code_units (b # bs) =
     (let n = leading_ones b in
      if n = 4 \<and> valid_char (take 4 (b # bs)) then
        (let cp = (code b - 240) * 262144 + (code (bs ! 0) - 128) * 4096
                  + (code (bs ! 1) - 128) * 64 + (code (bs ! 2) - 128) - 65536
         in utf8_3 (55296 + cp div 1024) # utf8_3 (56320 + cp mod 1024) # code_units (drop 3 bs))
      else if (n = 2 \<or> n = 3) \<and> length (b # bs) \<ge> n \<and> list_all is_cont (take (n - 1) bs) then
        take n (b # bs) # code_units (drop (n - 1) bs)
      else [b] # code_units bs)"
  by pat_completeness auto
termination
  by (relation "measure length") auto

fun entries :: "jsval \<Rightarrow> (string \<times> jsval) list" where
  "entries (Obj ps) = own_order ps"
| "entries (Arr xs) = number_from 0 xs"
| "entries (Str s) = number_from 0 (map Str (code_units s))"
| "entries _ = []"

fun is_object :: "jsval \<Rightarrow> bool" where
  "is_object (Obj ps) = True"
| "is_object (Arr xs) = True"
| "is_object Null = True"
| "is_object _ = False"

fun isArray :: "jsval \<Rightarrow> bool" where
  "isArray (Arr xs) = True"
| "isArray _ = False"

text \<open>\<^verbatim>\<open>new Date(value)\<close>, and \<^verbatim>\<open>new Date()\<close> as reading \<open>k\<close> of the clock.\<close>

fun Date_new :: "host \<Rightarrow> jsval \<Rightarrow> Date" where
  "Date_new h (Str s) = Date_of_string h s"
| "Date_new h Undefined = Invalid_Date"
| "Date_new h Null = Time_Value 0"
| "Date_new h (Bool b) = Time_Value (if b then 1 else 0)"
| "Date_new h (Num r) = TimeClip (if r < 0 then - \<lfloor>- r\<rfloor> else \<lfloor>r\<rfloor>)"
| "Date_new h v = Date_of_string h (ToString h v)"

definition Date_now :: "host \<Rightarrow> nat \<Rightarrow> Date" where
  "Date_now h k = TimeClip (now h k)"

subsection \<open>String helpers\<close>

definition startsWith :: "string \<Rightarrow> string \<Rightarrow> bool" where
  "startsWith s p = (take (length p) s = p)"

fun str_includes :: "string \<Rightarrow> string \<Rightarrow> bool" where
  "str_includes [] sub = (sub = [])"
| "str_includes (c # cs) sub = (startsWith (c # cs) sub \<or> str_includes cs sub)"


section \<open>Calendar events\<close>






















section \<open>Remote procedure calls and the endpoint sweep\<close>

text \<open>
  What the portal answers to one HTTP request: a response with a success status and a body,
  a response with an error status, or nothing. What a call throws: an \<open>Error\<close> made by
  the program, which has no \<open>response\<close> property, or the error of the HTTP library, which
  carries the status of the response when there was one. Messages are left out; the sweep
  only logs them.
\<close>

datatype http_reply = Reply jsval | Status nat | No_response

datatype thrown = Plain_Error | Axios_Error "nat option"

text \<open>
  The response interceptor of \<open>TRPCClient\<close>: a 401, a 403 and a 404 are replaced by a new
  \<open>Error\<close>; every other failure is passed on as it is.
\<close>

definition response_interceptor :: "http_reply \<Rightarrow> thrown + jsval" where
  "response_interceptor r =
     (case r of
        Reply body \<Rightarrow> Inr body
      | Status s \<Rightarrow>
          if s = 401 then Inl Plain_Error
          else if s = 403 then Inl Plain_Error
          else if s = 404 then Inl Plain_Error
          else Inl (Axios_Error (Some s))
      | No_response \<Rightarrow> Inl (Axios_Error None))"

text \<open>
  \<^verbatim>\<open>if (response.data.error) throw new Error(...); return response.data.result;\<close>
  Reading \<open>error\<close> from an empty body is a TypeError, which has no \<open>response\<close> either.
\<close>

definition unwrap_result :: "jsval \<Rightarrow> thrown + jsval" where
  "unwrap_result body =
     (if body = Null \<or> body = Undefined then Inl Plain_Error
      else if truthy (property body ''error'') then Inl Plain_Error
      else Inr (property body ''result''))"

definition request :: "http_reply \<Rightarrow> thrown + jsval" where
  "request r = (case response_interceptor r of Inl e \<Rightarrow> Inl e | Inr body \<Rightarrow> unwrap_result body)"

text \<open>
  One candidate of the sweep, with the answers of the portal to its GET and to its POST.
  \<open>TRPCClient.call\<close> tries the GET and, when that fails in any way, the POST, whose failure
  it rethrows.
\<close>

record candidate =
  endpoint :: string
  get_reply :: http_reply
  post_reply :: http_reply

definition call :: "candidate \<Rightarrow> thrown + jsval" where
  "call c = (case request (get_reply c) of Inr v \<Rightarrow> Inr v | Inl e \<Rightarrow> request (post_reply c))"

text \<open>
  The first property of an object, in the order of \<open>Object.keys\<close>, that is a non-empty
  array.
\<close>

fun non_empty_array :: "jsval \<Rightarrow> bool" where
  "non_empty_array (Arr xs) = (xs \<noteq> [])"
| "non_empty_array _ = False"

definition first_array_property :: "jsval \<Rightarrow> jsval option" where
  "first_array_property data = find non_empty_array (map snd (entries data))"

text \<open>
  \<^verbatim>\<open>"response" in error\<close> and \<^verbatim>\<open>error.response?.status === 401\<close>, the test that guards
  the \<open>break\<close>.
\<close>

definition stops_sweep :: "thrown \<Rightarrow> bool" where
  "stops_sweep e = (case e of Axios_Error (Some s) \<Rightarrow> s = 401 | _ \<Rightarrow> False)"

text \<open>
  \<open>tryMultipleNewsEndpoints\<close> over its list of candidates: the result, \<open>None\<close> for \<open>null\<close>,
  and the names of the candidates that were attempted, in order.
\<close>

fun tryMultipleNewsEndpoints :: "candidate list \<Rightarrow> jsval option \<times> string list" where
  "tryMultipleNewsEndpoints [] = (None, [])"
| "tryMultipleNewsEndpoints (c # cs) =
     (case call c of
        Inr data \<Rightarrow>
          if non_empty_array data then (Some data, [endpoint c])
          else if isArray data then
            (case tryMultipleNewsEndpoints cs of (r, ns) \<Rightarrow> (r, endpoint c # ns))
          else if truthy data \<and> is_object data then
            (case first_array_property data of
               Some a \<Rightarrow> (Some a, [endpoint c])
             | None \<Rightarrow> (case tryMultipleNewsEndpoints cs of (r, ns) \<Rightarrow> (r, endpoint c # ns)))
          else (case tryMultipleNewsEndpoints cs of (r, ns) \<Rightarrow> (r, endpoint c # ns))
      | Inl e \<Rightarrow>
          if stops_sweep e then (None, [endpoint c])
          else (case tryMultipleNewsEndpoints cs of (r, ns) \<Rightarrow> (r, endpoint c # ns)))"

text \<open>
  A candidate that is refused with the given status on both requests, and one that is
  answered with a list of one news item.
\<close>

definition refused :: "string \<Rightarrow> nat \<Rightarrow> candidate" where
  "refused n s = \<lparr>endpoint = n, get_reply = Status s, post_reply = Status s\<rparr>"

definition answered :: "string \<Rightarrow> candidate" where
  "answered n =
     \<lparr>endpoint = n,
      get_reply = Reply (Obj [(''result'', Arr [Obj [(''id'', Str ''7'')]])]),
      post_reply = No_response\<rparr>"

section \<open>\<open>JSON.parse\<close>\<close>

text \<open>
  The UTF-8 octets of a code point; a surrogate code unit that stands alone is written in
  the same three-octet form.
\<close>

definition utf8 :: "nat \<Rightarrow> string" where
  "utf8 n =
     (if n < 128 then [char_of n]
      else if n < 2048 then [char_of (192 + n div 64), char_of (128 + n mod 64)]
      else if n < 65536 then
        [char_of (224 + n div 4096), char_of (128 + n div 64 mod 64), char_of (128 + n mod 64)]
      else
        [char_of (240 + n div 262144), char_of (128 + n div 4096 mod 64),
         char_of (128 + n div 64 mod 64), char_of (128 + n mod 64)])"

definition hex4 :: "string \<Rightarrow> nat option" where
  "hex4 s =
     (case map hexval (take 4 s) of
        [Some a, Some b, Some c, Some d] \<Rightarrow> Some (4096 * a + 256 * b + 16 * c + d)
      | _ \<Rightarrow> None)"

definition json_ws :: "char \<Rightarrow> bool" where
  "json_ws c = (code c = 32 \<or> code c = 9 \<or> code c = 10 \<or> code c = 13)"

definition skip_ws :: "string \<Rightarrow> string" where
  "skip_ws s = dropWhile json_ws s"

text \<open>
  The characters of a string literal after its opening quote, up to the closing quote: the
  text they stand for and what follows the literal. A \<^verbatim>\<open>\u\<close> escape of a high surrogate
  directly followed by one of a low surrogate is one code point.
\<close>

definition simple_escape :: "char \<Rightarrow> char option" where
  "simple_escape e =
     (if e = CHR 0x22 then Some (CHR 0x22)
      else if e = CHR 0x5C then Some (CHR 0x5C)
      else if e = CHR ''/'' then Some (CHR ''/'')
      else if e = CHR ''b'' then Some (CHR 0x08)
      else if e = CHR ''f'' then Some (CHR 0x0C)
      else if e = CHR ''n'' then Some (CHR 0x0A)
      else if e = CHR ''r'' then Some (CHR 0x0D)
      else if e = CHR ''t'' then Some (CHR 0x09)
      else None)"

definition surrogate_pair :: "nat \<Rightarrow> string \<Rightarrow> nat option" where
  "surrogate_pair hi s =
     (if 55296 \<le> hi \<and> hi < 56320 \<and> take 2 s = [CHR 0x5C, CHR ''u''] then
        (case hex4 (drop 2 s) of
           Some lo \<Rightarrow>
             if 56320 \<le> lo \<and> lo < 57344
             then Some (65536 + (hi - 55296) * 1024 + (lo - 56320)) else None
         | None \<Rightarrow> None)
      else None)"

function string_chars :: "string \<Rightarrow> (string \<times> string) option" where
  "string_chars [] = None"
| "string_chars (c # cs) =
     (if c = CHR 0x22 then Some ([], cs)
      else if c = CHR 0x5C then
        (case cs of
           [] \<Rightarrow> None
         | e # es \<Rightarrow>
             if e = CHR ''u'' then
               (case hex4 es of
                  None \<Rightarrow> None
                | Some u \<Rightarrow>
                    (case surrogate_pair u (drop 4 es) of
                       Some cp \<Rightarrow>
                         (case string_chars (drop 10 es) of
                            None \<Rightarrow> None
                          | Some (t, r) \<Rightarrow> Some (utf8 cp @ t, r))
                     | None \<Rightarrow>
                         (case string_chars (drop 4 es) of
                            None \<Rightarrow> None
                          | Some (t, r) \<Rightarrow> Some (utf8 u @ t, r))))
             else
               (case simple_escape e of
                  None \<Rightarrow> None
                | Some x \<Rightarrow>
                    (case string_chars es of
                       None \<Rightarrow> None
                     | Some (t, r) \<Rightarrow> Some (x # t, r))))
      else if code c < 32 then None
      else (case string_chars cs of None \<Rightarrow> None | Some (t, r) \<Rightarrow> Some (c # t, r)))"
  by pat_completeness auto
termination
  by (relation "measure length") auto

text \<open>
  A number literal: \<^verbatim>\<open>-? (0 | [1-9][0-9]*) (. [0-9]+)? ([eE] [+-]? [0-9]+)?\<close>. Its value is
  the decimal number rounded to a double.
\<close>

definition digits_nat :: "string \<Rightarrow> nat" where
  "digits_nat s = foldl (\<lambda>n c. 10 * n + (code c - 48)) 0 s"

definition number_literal :: "string \<Rightarrow> (rat \<times> string) option" where
  "number_literal s =
     (let neg = (take 1 s = ''-'');
          s1 = (if neg then drop 1 s else s);
          ip = takeWhile is_digit s1;
          s2 = dropWhile is_digit s1
      in if ip = [] \<or> (1 < length ip \<and> hd ip = CHR ''0'') then None
         else
           (let has_frac = (take 1 s2 = ''.'');
                fp = (if has_frac then takeWhile is_digit (drop 1 s2) else []);
                s3 = (if has_frac then dropWhile is_digit (drop 1 s2) else s2)
            in if has_frac \<and> fp = [] then None
               else
                 (let has_exp = (take 1 s3 = ''e'' \<or> take 1 s3 = ''E'');
                      s4 = (if has_exp then drop 1 s3 else s3);
                      eneg = (has_exp \<and> take 1 s4 = ''-'');
                      s5 = (if has_exp \<and> (take 1 s4 = ''-'' \<or> take 1 s4 = ''+'')
                            then drop 1 s4 else s4);
                      ep = (if has_exp then takeWhile is_digit s5 else []);
                      s6 = (if has_exp then dropWhile is_digit s5 else s3)
                  in if has_exp \<and> ep = [] then None
                     else
                       (let m = of_nat (digits_nat (ip @ fp)) / 10 ^ length fp;
                            v = (if eneg then m / 10 ^ digits_nat ep else m * 10 ^ digits_nat ep)
                        in Some (fl (if neg then - v else v), s6)))))"

text \<open>
  Storing a member of an object: a repeated key keeps its place and takes the new value.
\<close>

fun put_member :: "string \<Rightarrow> jsval \<Rightarrow> (string \<times> jsval) list \<Rightarrow> (string \<times> jsval) list" where
  "put_member k v [] = [(k, v)]"
| "put_member k v ((k', v') # ps) =
     (if k = k' then (k, v) # ps else (k', v') # put_member k v ps)"

text \<open>
  The values, by recursive descent. The first argument bounds the number of nested calls;
  each call but one in two reads at least one character first, so twice the length of the
  text is never reached.
\<close>

fun json_value :: "nat \<Rightarrow> string \<Rightarrow> (jsval \<times> string) option"
  and json_elements :: "nat \<Rightarrow> string \<Rightarrow> jsval list \<Rightarrow> (jsval list \<times> string) option"
  and json_members ::
    "nat \<Rightarrow> string \<Rightarrow> (string \<times> jsval) list \<Rightarrow> ((string \<times> jsval) list \<times> string) option"
  where
  "json_value 0 s = None"
| "json_value (Suc n) s =
     (case skip_ws s of
        [] \<Rightarrow> None
      | c # cs \<Rightarrow>
          if c = CHR ''{'' then
            (case skip_ws cs of
               [] \<Rightarrow> None
             | d # ds \<Rightarrow>
                 if d = CHR ''}'' then Some (Obj [], ds)
                 else (case json_members n cs [] of
                         None \<Rightarrow> None | Some (ps, r) \<Rightarrow> Some (Obj ps, r)))
          else if c = CHR ''['' then
            (case skip_ws cs of
               [] \<Rightarrow> None
             | d # ds \<Rightarrow>
                 if d = CHR '']'' then Some (Arr [], ds)
                 else (case json_elements n cs [] of
                         None \<Rightarrow> None | Some (xs, r) \<Rightarrow> Some (Arr xs, r)))
          else if c = CHR 0x22 then
            (case string_chars cs of None \<Rightarrow> None | Some (t, r) \<Rightarrow> Some (Str t, r))
          else if startsWith (c # cs) ''true'' then Some (Bool True, drop 4 (c # cs))
          else if startsWith (c # cs) ''false'' then Some (Bool False, drop 5 (c # cs))
          else if startsWith (c # cs) ''null'' then Some (Null, drop 4 (c # cs))
          else (case number_literal (c # cs) of
                  None \<Rightarrow> None | Some (x, r) \<Rightarrow> Some (Num x, r)))"
| "json_elements 0 s acc = None"
| "json_elements (Suc n) s acc =
     (case json_value n s of
        None \<Rightarrow> None
      | Some (v, r) \<Rightarrow>
          (case skip_ws r of
             [] \<Rightarrow> None
           | c # cs \<Rightarrow>
               if c = CHR '','' then json_elements n cs (acc @ [v])
               else if c = CHR '']'' then Some (acc @ [v], cs)
               else None))"
| "json_members 0 s acc = None"
| "json_members (Suc n) s acc =
     (case skip_ws s of
        [] \<Rightarrow> None
      | q # qs \<Rightarrow>
          if q \<noteq> CHR 0x22 then None
          else
            (case string_chars qs of
               None \<Rightarrow> None
             | Some (k, r) \<Rightarrow>
                 (case skip_ws r of
                    [] \<Rightarrow> None
                  | c # cs \<Rightarrow>
                      if c \<noteq> CHR '':'' then None
                      else
                        (case json_value n cs of
                           None \<Rightarrow> None
                         | Some (v, r') \<Rightarrow>
                             (case skip_ws r' of
                                [] \<Rightarrow> None
                              | d # ds \<Rightarrow>
                                  if d = CHR '','' then json_members n ds (put_member k v acc)
                                  else if d = CHR ''}'' then Some (put_member k v acc, ds)
                                  else None)))))"

definition JSON_parse :: "string \<Rightarrow> js_error + jsval" where
  "JSON_parse text =
     (case json_value (2 * length text + 2) text of
        None \<Rightarrow> Inl SyntaxError
      | Some (v, r) \<Rightarrow> if skip_ws r = [] then Inr v else Inl SyntaxError)"

section \<open>Regular expressions\<close>

text \<open>
  The regular expressions of the program, matched by backtracking as the language standard
  prescribes: alternatives in order, a greedy star trying one more iteration first, a lazy
  one trying to stop first, and an iteration that consumes nothing is not taken. A dot is
  any character but a line terminator (LF, CR, U+2028, U+2029); with the \<open>s\<close> flag it is
  any character. A match state is the position in the input, the rest of the input, and
  the text of the capture groups matched so far.
\<close>

datatype rx =
  Lit string | Dot | AnyChar | Digit | Space | NotChar char
  | Seq rx rx | Alt rx rx | Opt rx | Star rx | LazyStar rx | Group nat rx | Bol | Eol

type_synonym mstate = "nat \<times> string \<times> (nat \<times> string) list"

definition line_terminator :: "string \<Rightarrow> bool" where
  "line_terminator s =
     (take 1 s = [CHR 0x0A] \<or> take 1 s = [CHR 0x0D]
      \<or> take 3 s = [CHR 0xE2, CHR 0x80, CHR 0xA8] \<or> take 3 s = [CHR 0xE2, CHR 0x80, CHR 0xA9])"

definition advance :: "nat \<Rightarrow> mstate \<Rightarrow> mstate" where
  "advance n st = (case st of (p, s, c) \<Rightarrow> (p + n, drop n s, c))"

fun rmatch :: "nat \<Rightarrow> rx \<Rightarrow> mstate \<Rightarrow> (mstate \<Rightarrow> mstate option) \<Rightarrow> mstate option" where
  "rmatch n (Lit l) st k =
     (if startsWith (fst (snd st)) l then k (advance (length l) st) else None)"
| "rmatch n Dot st k =
     (if fst (snd st) \<noteq> [] \<and> \<not> line_terminator (fst (snd st)) then k (advance 1 st) else None)"
| "rmatch n AnyChar st k = (if fst (snd st) \<noteq> [] then k (advance 1 st) else None)"
| "rmatch n Digit st k =
     (case fst (snd st) of [] \<Rightarrow> None | c # _ \<Rightarrow> if is_digit c then k (advance 1 st) else None)"
| "rmatch n Space st k =
     (if ws_len (fst (snd st)) = 0 then None else k (advance (ws_len (fst (snd st))) st))"
| "rmatch n (NotChar x) st k =
     (case fst (snd st) of [] \<Rightarrow> None | c # _ \<Rightarrow> if c \<noteq> x then k (advance 1 st) else None)"
| "rmatch n (Seq a b) st k = rmatch n a st (\<lambda>st'. rmatch n b st' k)"
| "rmatch n (Alt a b) st k =
     (case rmatch n a st k of Some r \<Rightarrow> Some r | None \<Rightarrow> rmatch n b st k)"
| "rmatch n (Opt a) st k = (case rmatch n a st k of Some r \<Rightarrow> Some r | None \<Rightarrow> k st)"
| "rmatch 0 (Star a) st k = None"
| "rmatch (Suc n) (Star a) st k =
     (case rmatch (Suc n) a st
             (\<lambda>st'. if fst st < fst st' then rmatch n (Star a) st' k else None) of
        Some r \<Rightarrow> Some r
      | None \<Rightarrow> k st)"
| "rmatch 0 (LazyStar a) st k = None"
| "rmatch (Suc n) (LazyStar a) st k =
     (case k st of
        Some r \<Rightarrow> Some r
      | None \<Rightarrow>
          rmatch (Suc n) a st
            (\<lambda>st'. if fst st < fst st' then rmatch n (LazyStar a) st' k else None))"
| "rmatch n (Group i a) st k =
     rmatch n a st
       (\<lambda>st'. k (fst st', fst (snd st'),
                  (i, take (fst st' - fst st) (fst (snd st))) # snd (snd st')))"
| "rmatch n Bol st k = (if fst st = 0 then k st else None)"
| "rmatch n Eol st k = (if fst (snd st) = [] then k st else None)"

text \<open>One or more.\<close>

definition Plus :: "rx \<Rightarrow> rx" where
  "Plus a = Seq a (Star a)"

text \<open>
  A match: where it starts, where it ends, and the captures. \<open>exec_from\<close> tries the start
  positions from left to right; a star iterates at most once per character, so the length
  of the input bounds its iterations.
\<close>

type_synonym rmatch_result = "nat \<times> nat \<times> (nat \<times> string) list"

fun exec_from :: "nat \<Rightarrow> rx \<Rightarrow> nat \<Rightarrow> string \<Rightarrow> rmatch_result option" where
  "exec_from n r p [] =
     (case rmatch n r (p, [], []) Some of
        Some (q, _, c) \<Rightarrow> Some (p, q, c) | None \<Rightarrow> None)"
| "exec_from n r p (x # xs) =
     (case rmatch n r (p, x # xs, []) Some of
        Some (q, _, c) \<Rightarrow> Some (p, q, c)
      | None \<Rightarrow> exec_from n r (Suc p) xs)"

text \<open>The text of a capture group of a match (every group of the patterns here takes part).\<close>

definition capture :: "nat \<Rightarrow> (nat \<times> string) list \<Rightarrow> string" where
  "capture i c = (case map_of c i of None \<Rightarrow> [] | Some s \<Rightarrow> s)"

text \<open>
  \<open>s.match(r)\<close> for \<open>r\<close> without the \<open>g\<close> flag: the text of the first match and its
  captures.
\<close>

definition match_first :: "rx \<Rightarrow> string \<Rightarrow> (string \<times> (nat \<times> string) list) option" where
  "match_first r s =
     (case exec_from (Suc (length s)) r 0 s of
        None \<Rightarrow> None
      | Some (p, q, c) \<Rightarrow> Some (take (q - p) (drop p s), c))"

text \<open>
  The matches of \<open>s.match(r)\<close> and \<open>s.matchAll(r)\<close> for \<open>r\<close> with the \<open>g\<close> flag, from left
  to right without overlap; after an empty match the search resumes one character on. The
  first argument bounds the number of matches by the length of the input.
\<close>

fun matches_from ::
  "nat \<Rightarrow> rx \<Rightarrow> nat \<Rightarrow> nat \<Rightarrow> string \<Rightarrow> (string \<times> (nat \<times> string) list) list" where
  "matches_from 0 r n p s = []"
| "matches_from (Suc f) r n p s =
     (case exec_from n r p s of
        None \<Rightarrow> []
      | Some (a, b, c) \<Rightarrow>
          (take (b - a) (drop (a - p) s), c)
          # (if a < b then matches_from f r n b (drop (b - p) s)
             else if drop (b - p) s = [] then []
             else matches_from f r n (Suc b) (drop (Suc b - p) s)))"

definition match_all :: "rx \<Rightarrow> string \<Rightarrow> (string \<times> (nat \<times> string) list) list" where
  "match_all r s = matches_from (Suc (length s)) r (Suc (length s)) 0 s"

text \<open>\<open>s.replace(/lit/g, by)\<close> for a literal pattern.\<close>

function replaceAll :: "string \<Rightarrow> string \<Rightarrow> string \<Rightarrow> string" where
  "replaceAll lit by [] = []"
| "replaceAll lit by (c # cs) =
     (if lit \<noteq> [] \<and> startsWith (c # cs) lit
      then by @ replaceAll lit by (drop (length lit) (c # cs))
      else c # replaceAll lit by cs)"
  by pat_completeness auto
termination
  by (relation "measure (\<lambda>(l, b, s). length s)") auto

section \<open>News: searching parsed data\<close>

text \<open>
  \<open>searchForNewsInData\<close>: an array whose first element is an object with one of the
  characteristic properties is returned as it is; an object contributes what is found in
  each of its properties, in the order of \<open>Object.entries\<close>, all put end to end.
\<close>

definition newsProperties :: "string list" where
  "newsProperties =
     [''title'', ''name'', ''content'', ''publishedAt'', ''menuName'', ''createdAt'',
      ''updatedAt'', ''id'']"

definition news_like :: "jsval \<Rightarrow> bool" where
  "news_like firstItem =
     (truthy firstItem \<and> is_object firstItem
      \<and> list_ex (\<lambda>p. has_property p firstItem) newsProperties)"

fun searchForNewsInData :: "jsval \<Rightarrow> jsval list"
  and searchForNewsInData_properties :: "(string \<times> jsval) list \<Rightarrow> (string \<times> jsval list) list"
  where
  "searchForNewsInData (Arr xs) =
     (case xs of [] \<Rightarrow> [] | firstItem # _ \<Rightarrow> if news_like firstItem then xs else [])"
| "searchForNewsInData (Obj ps) =
     concat (map snd (own_order (searchForNewsInData_properties ps)))"
| "searchForNewsInData Undefined = []"
| "searchForNewsInData Null = []"
| "searchForNewsInData (Bool b) = []"
| "searchForNewsInData (Num r) = []"
| "searchForNewsInData (Str s) = []"
| "searchForNewsInData_properties [] = []"
| "searchForNewsInData_properties (p # ps) =
     (fst p, searchForNewsInData (snd p)) # searchForNewsInData_properties ps"

text \<open>
  \<open>searchForNewsDataInObject\<close>, for one record: an object with \<open>id\<close>, \<open>title\<close> and one of
  \<open>publishedAt\<close>, \<open>description\<close>, \<open>menuName\<close>; else the \<open>news\<close> property when it is an object
  or an array; else the first find among the properties.
\<close>

definition news_record :: "jsval \<Rightarrow> bool" where
  "news_record obj =
     (truthy (property obj ''id'') \<and> truthy (property obj ''title'')
      \<and> (truthy (property obj ''publishedAt'') \<or> truthy (property obj ''description'')
           \<or> truthy (property obj ''menuName'')))"

definition first_found :: "(string \<times> jsval option) list \<Rightarrow> jsval option" where
  "first_found rs = (case filter (\<lambda>r. r \<noteq> None) (map snd rs) of [] \<Rightarrow> None | r # _ \<Rightarrow> r)"

fun searchForNewsDataInObject :: "jsval \<Rightarrow> jsval option"
  and searchForNewsDataInObject_properties ::
    "(string \<times> jsval) list \<Rightarrow> (string \<times> jsval option) list"
  and searchForNewsDataInObject_elements :: "jsval list \<Rightarrow> jsval option"
  where
  "searchForNewsDataInObject (Obj ps) =
     (if news_record (Obj ps) then Some (Obj ps)
      else if truthy (property (Obj ps) ''news'') \<and> is_object (property (Obj ps) ''news'')
        then Some (property (Obj ps) ''news'')
      else first_found (own_order (searchForNewsDataInObject_properties ps)))"
| "searchForNewsDataInObject (Arr xs) = searchForNewsDataInObject_elements xs"
| "searchForNewsDataInObject Undefined = None"
| "searchForNewsDataInObject Null = None"
| "searchForNewsDataInObject (Bool b) = None"
| "searchForNewsDataInObject (Num r) = None"
| "searchForNewsDataInObject (Str s) = None"
| "searchForNewsDataInObject_properties [] = []"
| "searchForNewsDataInObject_properties (p # ps) =
     (fst p, searchForNewsDataInObject (snd p)) # searchForNewsDataInObject_properties ps"
| "searchForNewsDataInObject_elements [] = None"
| "searchForNewsDataInObject_elements (x # xs) =
     (case searchForNewsDataInObject x of
        Some r \<Rightarrow> Some r
      | None \<Rightarrow> searchForNewsDataInObject_elements xs)"

section \<open>News: the normalizer\<close>

datatype priority_level = High | Medium | Low

text \<open>
  An announcement. \<open>more_properties\<close> holds \<open>targetAudience\<close>, \<open>menuName\<close>, \<open>isImportant\<close>
  and \<open>isUnread\<close>, and whatever else the record was given.
\<close>

record NLobbyAnnouncement =
  news_id :: string
  news_title :: jsval
  news_content :: jsval
  publishedAt :: Date
  news_category :: jsval
  news_priority :: priority_level
  news_url :: string
  more_properties :: "(string \<times> jsval) list"

text \<open>
  The date of an item: \<^verbatim>\<open>let publishedDate = new Date()\<close> reads the clock for every item,
  and a date that the item carries replaces the reading; \<open>k\<close> is the number of the reading.
\<close>

definition publishedDate :: "host \<Rightarrow> nat \<Rightarrow> jsval \<Rightarrow> Date" where
  "publishedDate h k item =
     (if truthy (property item ''publishedAt'') then Date_new h (property item ''publishedAt'')
      else if truthy (property item ''createdAt'') then Date_new h (property item ''createdAt'')
      else if truthy (property item ''updatedAt'') then Date_new h (property item ''updatedAt'')
      else if truthy (property item ''date'') then Date_new h (property item ''date'')
      else Date_now h k)"

definition item_priority :: "jsval \<Rightarrow> priority_level" where
  "item_priority item =
     (if property item ''isImportant'' = Bool True \<or> property item ''important'' = Bool True
         \<or> property item ''priority'' = Str ''high'' \<or> property item ''urgent'' = Bool True
      then High
      else if property item ''priority'' = Str ''low'' \<or> property item ''minor'' = Bool True
      then Low
      else Medium)"

text \<open>
  \<^verbatim>\<open>item.id?.toString() || index.toString()\<close>, and in the address
  \<^verbatim>\<open>${item.id || index}\<close>. An index of an array is below \<open>2^32\<close> and is written in decimal
  digits.
\<close>

definition item_id_string :: "host \<Rightarrow> nat \<Rightarrow> jsval \<Rightarrow> string" where
  "item_id_string h index item =
     (let v = property item ''id'' in
      if v = Undefined \<or> v = Null then nat_toString index
      else if ToString h v = [] then nat_toString index
      else ToString h v)"

definition protected_keys :: "string list" where
  "protected_keys =
     [''id'', ''title'', ''content'', ''publishedAt'', ''category'', ''priority'', ''url'']"

definition announcement :: "host \<Rightarrow> nat \<Rightarrow> nat \<Rightarrow> jsval \<Rightarrow> NLobbyAnnouncement" where
  "announcement h k index item =
     \<lparr>news_id = item_id_string h index item,
      news_title =
        or_else (property item ''title'') (or_else (property item ''name'')
          (or_else (property item ''subject'') (or_else (property item ''heading'')
            (Str (''News Item '' @ nat_toString (index + 1)))))),
      news_content =
        or_else (property item ''content'') (or_else (property item ''description'')
          (or_else (property item ''body'') (or_else (property item ''text'')
            (or_else (property item ''summary'') (Str []))))),
      publishedAt = publishedDate h k item,
      news_category =
        or_else (property item ''category'') (or_else (property item ''menuName'')
          (or_else (property item ''type'') (or_else (property item ''classification'')
            (Str ''General'')))),
      news_priority = item_priority item,
      news_url =
        baseUrl h @ ''/news/''
          @ (if truthy (property item ''id'') then ToString h (property item ''id'')
             else nat_toString index),
      more_properties =
        foldl (\<lambda>ps p. put_member (fst p) (snd p) ps)
          [(''targetAudience'',
              or_else (property item ''targetAudience'') (Arr [Str ''student''])),
           (''menuName'', property item ''menuName''),
           (''isImportant'', property item ''isImportant''),
           (''isUnread'', property item ''isUnread'')]
          (filter (\<lambda>p. fst p \<notin> set protected_keys) (entries item))\<rparr>"

text \<open>
  \<open>transformNewsToAnnouncements\<close>: the callback of \<open>map\<close> reads the clock and then a
  property of the item, which is a TypeError for \<open>null\<close>. With \<open>k\<close> readings of the clock
  before the call, the item at \<open>index\<close> has the reading \<open>k + index\<close>.
\<close>

fun transform_from ::
  "host \<Rightarrow> nat \<Rightarrow> nat \<Rightarrow> jsval list \<Rightarrow> js_error + NLobbyAnnouncement list" where
  "transform_from h k index [] = Inr []"
| "transform_from h k index (item # items) =
     (if item = Null \<or> item = Undefined then Inl TypeError
      else (case transform_from h k (Suc index) items of
              Inl e \<Rightarrow> Inl e
            | Inr as \<Rightarrow> Inr (announcement h (k + index) index item # as)))"

text \<open>The readings of the clock in one call: one for each item up to the first \<open>null\<close>.\<close>

fun clock_readings :: "jsval list \<Rightarrow> nat" where
  "clock_readings [] = 0"
| "clock_readings (item # items) =
     (if item = Null \<or> item = Undefined then 1 else Suc (clock_readings items))"

text \<open>The result, and the number of readings of the clock after the call.\<close>

definition transformNewsToAnnouncements ::
  "host \<Rightarrow> nat \<Rightarrow> jsval list \<Rightarrow> (js_error + NLobbyAnnouncement list) \<times> nat" where
  "transformNewsToAnnouncements h k newsData =
     (transform_from h k 0 newsData, k + clock_readings newsData)"

text \<open>A \<open>return transformNewsToAnnouncements(...)\<close> inside a \<open>try\<close>: an exception is caught.\<close>

definition try_transform ::
  "host \<Rightarrow> jsval list \<Rightarrow> nat \<Rightarrow> NLobbyAnnouncement list option \<times> nat" where
  "try_transform h newsData k =
     (case transformNewsToAnnouncements h k newsData of
        (Inl e, k') \<Rightarrow> (None, k')
      | (Inr as, k') \<Rightarrow> (Some as, k'))"

section \<open>News: the data grid of the page\<close>

fun attr :: "string \<Rightarrow> node \<Rightarrow> string option" where
  "attr a (Element t as cs) = map_of as a"
| "attr a (Text s) = None"

fun is_element :: "string \<Rightarrow> node \<Rightarrow> bool" where
  "is_element tag (Element t as cs) = (t = tag)"
| "is_element tag (Text s) = False"

definition div_role :: "string \<Rightarrow> node \<Rightarrow> bool" where
  "div_role r n = (is_element ''div'' n \<and> attr ''role'' n = Some r)"

text \<open>The elements below a node that satisfy a selector, in document order.\<close>

fun descendants :: "(node \<Rightarrow> bool) \<Rightarrow> node \<Rightarrow> node list"
  and descendants_of_list :: "(node \<Rightarrow> bool) \<Rightarrow> node list \<Rightarrow> node list" where
  "descendants sel (Element t as cs) = descendants_of_list sel cs"
| "descendants sel (Text s) = []"
| "descendants_of_list sel [] = []"
| "descendants_of_list sel (n # ns) =
     (if sel n then [n] else []) @ descendants sel n @ descendants_of_list sel ns"

text \<open>\<open>text()\<close> of a node and of a collection.\<close>

fun node_text :: "node \<Rightarrow> string"
  and nodes_text :: "node list \<Rightarrow> string" where
  "node_text (Text s) = s"
| "node_text (Element t as cs) = nodes_text cs"
| "nodes_text [] = []"
| "nodes_text (n # ns) = node_text n @ nodes_text ns"

text \<open>
  \<open>link.find("span")\<close> for the collection \<open>link\<close> of the \<open>a\<close> elements below a cell: the
  \<open>span\<close> elements that have one of them above, each once, in document order.
\<close>

fun spans_in_links :: "bool \<Rightarrow> node \<Rightarrow> node list"
  and spans_in_links_list :: "bool \<Rightarrow> node list \<Rightarrow> node list" where
  "spans_in_links inside (Element t as cs) = spans_in_links_list inside cs"
| "spans_in_links inside (Text s) = []"
| "spans_in_links_list inside [] = []"
| "spans_in_links_list inside (n # ns) =
     (if inside \<and> is_element ''span'' n then [n] else [])
     @ spans_in_links (inside \<or> is_element ''a'' n) n
     @ spans_in_links_list inside ns"

record row_state =
  row_title :: string
  row_category :: string
  row_publishedAt :: Date
  row_isImportant :: bool
  row_isUnread :: bool
  row_url :: string

text \<open>
  One \<open>gridcell\<close> of a row, by its \<open>data-field\<close>. A date is written \<^verbatim>\<open>2025/07/13 09:00\<close>;
  the slashes become dashes before \<open>new Date\<close> reads it.
\<close>

definition is_any_element :: "node \<Rightarrow> bool" where
  "is_any_element n = (case n of Element t as cs \<Rightarrow> True | Text s \<Rightarrow> False)"

definition cell_step :: "host \<Rightarrow> string \<Rightarrow> row_state \<Rightarrow> node \<Rightarrow> row_state" where
  "cell_step h rowId st cell =
     (let field = attr ''data-field'' cell in
      if field = Some ''title'' then
        (let link = descendants (is_element ''a'') cell in
         if link \<noteq> [] then
           (let hrefUrl = attr ''href'' (hd link);
                titleSpan = spans_in_links False cell
            in st\<lparr>row_url :=
                     (case hrefUrl of
                        Some href \<Rightarrow>
                          if href \<noteq> [] \<and> startsWith href ''/news/'' then baseUrl h @ href
                          else baseUrl h @ ''/news/'' @ rowId
                      | None \<Rightarrow> baseUrl h @ ''/news/'' @ rowId),
                   row_title :=
                     (if titleSpan \<noteq> [] then trim (nodes_text titleSpan)
                      else trim (nodes_text link))\<rparr>)
         else st\<lparr>row_title := trim (node_text cell),
                 row_url := baseUrl h @ ''/news/'' @ rowId\<rparr>)
      else if field = Some ''menuName'' then st\<lparr>row_category := trim (node_text cell)\<rparr>
      else if field = Some ''isImportant'' then
        st\<lparr>row_isImportant :=
             (trim (node_text cell) \<noteq> [] \<or> descendants is_any_element cell \<noteq> [])\<rparr>
      else if field = Some ''isUnread'' then
        (let unreadText = trim (node_text cell) in
         st\<lparr>row_isUnread :=
              (str_includes unreadText [CHR 0xE6, CHR 0x9C, CHR 0xAA, CHR 0xE8, CHR 0xAA, CHR 0xAD]
               \<or> unreadText \<noteq> [])\<rparr>)
      else if field = Some ''publishedAt'' then
        (let dateText = trim (node_text cell) in
         if dateText \<noteq> [] then
           (case Date_of_string h (replaceAll ''/'' ''-'' dateText) of
              Invalid_Date \<Rightarrow> st
            | Time_Value t \<Rightarrow> st\<lparr>row_publishedAt := Time_Value t\<rparr>)
         else st)
      else st)"

text \<open>
  One row. A row without \<open>data-id\<close> is passed over; every other row reads the clock, for
  the date it has when no cell gives one, and is kept when it has a title.
\<close>

definition has_id :: "node \<Rightarrow> bool" where
  "has_id row = (case attr ''data-id'' row of None \<Rightarrow> False | Some rowId \<Rightarrow> rowId \<noteq> [])"

definition row_announcement :: "host \<Rightarrow> nat \<Rightarrow> node \<Rightarrow> NLobbyAnnouncement option" where
  "row_announcement h k row =
     (case attr ''data-id'' row of
        None \<Rightarrow> None
      | Some rowId \<Rightarrow>
          if rowId = [] then None
          else
            (let st = foldl (cell_step h rowId)
                        \<lparr>row_title = [], row_category = [], row_publishedAt = Date_now h k,
                         row_isImportant = False, row_isUnread = False, row_url = []\<rparr>
                        (descendants (div_role ''gridcell'') row)
             in if row_title st = [] then None
                else Some
                  \<lparr>news_id = rowId,
                   news_title = Str (row_title st),
                   news_content = Str [],
                   publishedAt = row_publishedAt st,
                   news_category =
                     (if row_category st = [] then Str ''General'' else Str (row_category st)),
                   news_priority = (if row_isImportant st then High else Medium),
                   news_url =
                     (if row_url st = [] then baseUrl h @ ''/news/'' @ rowId else row_url st),
                   more_properties =
                     [(''targetAudience'', Arr [Str ''student'']),
                      (''menuName'', Str (row_category st)),
                      (''isImportant'', Bool (row_isImportant st)),
                      (''isUnread'', Bool (row_isUnread st))]\<rparr>))"

fun rows_announcements :: "host \<Rightarrow> node list \<Rightarrow> nat \<Rightarrow> NLobbyAnnouncement list \<times> nat" where
  "rows_announcements h [] k = ([], k)"
| "rows_announcements h (row # rows) k =
     (if has_id row then
        (case rows_announcements h rows (Suc k) of
           (as, k') \<Rightarrow>
             ((case row_announcement h k row of None \<Rightarrow> as | Some a \<Rightarrow> a # as), k'))
      else rows_announcements h rows k)"

text \<open>
  \<open>parseAnnouncementsWithCheerio\<close>: the rows below the second \<open>div\<close> of role
  \<open>presentation\<close> of the document.
\<close>

definition parseAnnouncementsWithCheerio ::
  "host \<Rightarrow> string \<Rightarrow> nat \<Rightarrow> NLobbyAnnouncement list \<times> nat" where
  "parseAnnouncementsWithCheerio h html k =
     (let presentationDivs = descendants_of_list (div_role ''presentation'') (cheerio_load h html)
      in if length presentationDivs < 2 then ([], k)
         else rows_announcements h (descendants (div_role ''row'') (presentationDivs ! 1)) k)"
section \<open>News: extraction from a page\<close>

definition seq :: "rx list \<Rightarrow> rx" where
  "seq rs = foldr Seq rs (Lit [])"

text \<open>\<^verbatim>\<open>/self\.__next_f\.push\((\[.*?\])\)/\<close>\<close>

definition push_rx :: rx where
  "push_rx =
     seq [Lit ''self.__next_f.push('', Group 1 (seq [Lit ''['', LazyStar Dot, Lit '']'']),
          Lit '')'']"

text \<open>\<^verbatim>\<open>/^(\d+):(.*)/\<close>\<close>

definition prefix_rx :: rx where
  "prefix_rx = seq [Bol, Group 1 (Plus Digit), Lit '':'', Group 2 (Star Dot)]"

text \<open>\<^verbatim>\<open>/^\d+:T\d+,?$/\<close>\<close>

definition reference_rx :: rx where
  "reference_rx = seq [Bol, Plus Digit, Lit '':T'', Plus Digit, Opt (Lit '',''), Eol]"

text \<open>
  \<^verbatim>\<open>/window\.__NEXT_DATA__\s*=\s*({.*?})\s*(?:;|<\/script>)/s\<close>,
  \<^verbatim>\<open>/<script id="__NEXT_DATA__"[^>]*>([^<]*)<\/script>/s\<close> and
  \<^verbatim>\<open>/__NEXT_DATA__\s*=\s*({.*?})(?:;|\s*<\/script>)/s\<close>
\<close>

definition next_data_rxs :: "rx list" where
  "next_data_rxs =
     [seq [Lit ''window.__NEXT_DATA__'', Star Space, Lit ''='', Star Space,
           Group 1 (seq [Lit ''{'', LazyStar AnyChar, Lit ''}'']), Star Space,
           Alt (Lit '';'') (Lit ''</script>'')],
      seq [Lit (''<script id='' @ [CHR 0x22] @ ''__NEXT_DATA__'' @ [CHR 0x22]),
           Star (NotChar CHR ''>''), Lit ''>'', Group 1 (Star (NotChar CHR ''<'')),
           Lit ''</script>''],
      seq [Lit ''__NEXT_DATA__'', Star Space, Lit ''='', Star Space,
           Group 1 (seq [Lit ''{'', LazyStar AnyChar, Lit ''}'']),
           Alt (Lit '';'') (seq [Star Space, Lit ''</script>''])]]"

text \<open>\<^verbatim>\<open>/"news":\s*(\[.*?\])/g\<close> and the same for \<open>announcements\<close>, \<open>items\<close>, \<open>data\<close>.\<close>

definition key_array_rx :: "string \<Rightarrow> rx" where
  "key_array_rx key =
     seq [Lit ([CHR 0x22] @ key @ [CHR 0x22] @ '':''), Star Space,
          Group 1 (seq [Lit ''['', LazyStar Dot, Lit '']''])]"

definition reactDataPatterns :: "rx list" where
  "reactDataPatterns =
     [key_array_rx ''news'', key_array_rx ''announcements'', key_array_rx ''items'',
      key_array_rx ''data'']"

text \<open>
  \<^verbatim>\<open>/data-news="([^"]*)">/g\<close>, the same for \<open>data-items\<close> and \<open>data-content\<close>, and
  \<^verbatim>\<open>/<script[^>]*>.*?(\[.*?\]).*?<\/script>/gs\<close>.
\<close>

definition attribute_rx :: "string \<Rightarrow> rx" where
  "attribute_rx a =
     seq [Lit (a @ ''='' @ [CHR 0x22]), Group 1 (Star (NotChar (CHR 0x22))),
          Lit ([CHR 0x22] @ ''>'')]"

definition simplePatterns :: "rx list" where
  "simplePatterns =
     [attribute_rx ''data-news'', attribute_rx ''data-items'', attribute_rx ''data-content'',
      seq [Lit ''<script'', Star (NotChar CHR ''>''), Lit ''>'', LazyStar AnyChar,
           Group 1 (seq [Lit ''['', LazyStar AnyChar, Lit '']'']), LazyStar AnyChar,
           Lit ''</script>'']]"

text \<open>
  The first step that returns; a step that returns nothing or throws is \<open>None\<close>. The second
  form passes the number of readings of the clock from each step to the next.
\<close>

fun first_some :: "('a \<Rightarrow> 'b option) \<Rightarrow> 'a list \<Rightarrow> 'b option" where
  "first_some f [] = None"
| "first_some f (x # xs) = (case f x of Some r \<Rightarrow> Some r | None \<Rightarrow> first_some f xs)"

fun first_return :: "('a \<Rightarrow> nat \<Rightarrow> 'b option \<times> nat) \<Rightarrow> 'a list \<Rightarrow> nat \<Rightarrow> 'b option \<times> nat" where
  "first_return f [] k = (None, k)"
| "first_return f (x # xs) k =
     (case f x k of
        (Some r, k') \<Rightarrow> (Some r, k')
      | (None, k') \<Rightarrow> first_return f xs k')"

text \<open>
  A payload with the \<^verbatim>\<open><int>:\<close> prefix, after the prefix: the first component
  \<^verbatim>\<open>[_, _, _, {news: [...]}]\<close> whose news list starts with a record is transformed. A
  syntax error, or a TypeError of the transformation, ends this step without a result.
\<close>

definition component_news :: "jsval \<Rightarrow> jsval list option" where
  "component_news item =
     (case item of
        Arr xs \<Rightarrow>
          if 4 \<le> length xs \<and> truthy (xs ! 3) \<and> is_object (xs ! 3) then
            (case property (xs ! 3) ''news'' of
               Arr news \<Rightarrow>
                 (case news of
                    [] \<Rightarrow> None
                  | firstNews # _ \<Rightarrow>
                      if truthy firstNews \<and> is_object firstNews
                         \<and> (truthy (property firstNews ''id'')
                              \<or> truthy (property firstNews ''title'')
                              \<or> truthy (property firstNews ''microCmsId''))
                      then Some news else None)
             | _ \<Rightarrow> None)
          else None
      | _ \<Rightarrow> None)"

definition prefixed_payload ::
  "host \<Rightarrow> string \<Rightarrow> nat \<Rightarrow> NLobbyAnnouncement list option \<times> nat" where
  "prefixed_payload h actualJsonString k =
     (case JSON_parse actualJsonString of
        Inr (Arr parsedContent) \<Rightarrow>
          (case first_some component_news parsedContent of
             None \<Rightarrow> (None, k)
           | Some news \<Rightarrow> try_transform h news k)
      | _ \<Rightarrow> (None, k))"

definition found_news :: "host \<Rightarrow> jsval \<Rightarrow> nat \<Rightarrow> NLobbyAnnouncement list option \<times> nat" where
  "found_news h data k =
     (let foundNews = searchForNewsInData data in
      if foundNews \<noteq> [] then try_transform h foundNews k else (None, k))"

definition unprefixed_payload ::
  "host \<Rightarrow> string \<Rightarrow> nat \<Rightarrow> NLobbyAnnouncement list option \<times> nat" where
  "unprefixed_payload h stringData k =
     (case JSON_parse stringData of
        Inl e \<Rightarrow> (None, k)
      | Inr innerData \<Rightarrow> found_news h innerData k)"

text \<open>One push call of the first strategy.\<close>

definition push_call_news ::
  "host \<Rightarrow> string \<Rightarrow> nat \<Rightarrow> NLobbyAnnouncement list option \<times> nat" where
  "push_call_news h pushCall k =
     (case match_first push_rx pushCall of
        None \<Rightarrow> (None, k)
      | Some (m, groups) \<Rightarrow>
          (case JSON_parse (capture 1 groups) of
             Inr (Arr pushData) \<Rightarrow>
               (case (if 2 \<le> length pushData then pushData ! 1 else Undefined) of
                  Str stringData \<Rightarrow>
                    (case (case match_first prefix_rx stringData of
                             Some (m', groups') \<Rightarrow>
                               prefixed_payload h (capture 2 groups') k
                           | None \<Rightarrow> unprefixed_payload h stringData k) of
                       (Some r, k') \<Rightarrow> (Some r, k')
                     | (None, k') \<Rightarrow> found_news h (Arr pushData) k')
                | _ \<Rightarrow> found_news h (Arr pushData) k)
           | _ \<Rightarrow> (None, k)))"

text \<open>The embedded page state, the inline arrays and the last resort.\<close>

definition next_data_news ::
  "host \<Rightarrow> string \<Rightarrow> rx \<Rightarrow> nat \<Rightarrow> NLobbyAnnouncement list option \<times> nat" where
  "next_data_news h html r k =
     (case match_first r html of
        None \<Rightarrow> (None, k)
      | Some (m, groups) \<Rightarrow>
          (let g = capture 1 groups; jsonData = (if g \<noteq> [] then g else m) in
           case JSON_parse jsonData of
             Inl e \<Rightarrow> (None, k)
           | Inr nextData \<Rightarrow> if nextData = Null then (None, k) else found_news h nextData k))"

definition inline_array_news ::
  "host \<Rightarrow> (string \<times> (nat \<times> string) list) \<Rightarrow> nat \<Rightarrow>
   NLobbyAnnouncement list option \<times> nat" where
  "inline_array_news h m k =
     (let g = capture 1 (snd m) in
      if g = [] then (None, k)
      else (case JSON_parse g of
              Inr (Arr newsData) \<Rightarrow>
                if newsData \<noteq> [] then found_news h (Arr newsData) k else (None, k)
            | _ \<Rightarrow> (None, k)))"

definition html_entities :: "string \<Rightarrow> string" where
  "html_entities s =
     replaceAll ''&gt;'' ''>'' (replaceAll ''&lt;'' ''<'' (replaceAll ''&amp;'' ''&''
       (replaceAll ''&quot;'' [CHR 0x22] s)))"

definition salvaged_news ::
  "host \<Rightarrow> (string \<times> (nat \<times> string) list) \<Rightarrow> nat \<Rightarrow>
   NLobbyAnnouncement list option \<times> nat" where
  "salvaged_news h m k =
     (let g = capture 1 (snd m) in
      if g = [] then (None, k)
      else (case JSON_parse (html_entities g) of
              Inr (Arr possibleData) \<Rightarrow>
                if possibleData \<noteq> [] then found_news h (Arr possibleData) k else (None, k)
            | _ \<Rightarrow> (None, k)))"

text \<open>The strategies after the data grid, in order.\<close>

definition later_strategies ::
  "host \<Rightarrow> string \<Rightarrow> nat \<Rightarrow> NLobbyAnnouncement list option \<times> nat" where
  "later_strategies h html k =
     (case first_return (next_data_news h html) next_data_rxs k of
        (Some r, k') \<Rightarrow> (Some r, k')
      | (None, k') \<Rightarrow>
     (case first_return
             (\<lambda>pattern. first_return (inline_array_news h) (match_all pattern html))
             reactDataPatterns k' of
        (Some r, k'') \<Rightarrow> (Some r, k'')
      | (None, k'') \<Rightarrow>
          first_return
            (\<lambda>pattern. first_return (salvaged_news h) (match_all pattern html))
            simplePatterns k''))"

text \<open>
  \<open>parseNewsFromHtml\<close>: the five strategies in order, from the first reading of the clock;
  an empty list when none returns.
\<close>

definition parseNewsFromHtml :: "host \<Rightarrow> string \<Rightarrow> NLobbyAnnouncement list" where
  "parseNewsFromHtml h html =
     (case first_return (push_call_news h) (map fst (match_all push_rx html)) 0 of
        (Some r, k) \<Rightarrow> r
      | (None, k) \<Rightarrow>
          (case parseAnnouncementsWithCheerio h html k of
             (cheerioAnnouncements, k') \<Rightarrow>
               if cheerioAnnouncements \<noteq> [] then cheerioAnnouncements
               else (case later_strategies h html k' of
                       (Some r, k'') \<Rightarrow> r
                     | (None, k'') \<Rightarrow> [])))"

section \<open>News: the detail page\<close>

record NLobbyNewsDetail =
  detail_id :: jsval
  microCmsId :: jsval
  detail_title :: jsval
  detail_content :: jsval
  detail_description :: jsval
  detail_publishedAt :: Date
  menuName :: jsval
  isImportant :: jsval
  isByMentor :: jsval
  attachments :: jsval
  relatedEvents :: jsval
  targetUserQueryId :: jsval
  detail_url :: string

text \<open>
  \<open>decodeHtmlContent\<close>: the escapes \<^verbatim>\<open><\<close>, \<^verbatim>\<open>>\<close>, \<^verbatim>\<open>&\<close>, an escaped quote and
  an escaped backslash, in this order.
\<close>

definition decodeHtmlContent :: "string \<Rightarrow> string" where
  "decodeHtmlContent content =
     (if content = [] then []
      else replaceAll [CHR 0x5C, CHR 0x5C] [CHR 0x5C]
        (replaceAll [CHR 0x5C, CHR 0x22] [CHR 0x22]
          (replaceAll (CHR 0x5C # ''u0026'') ''&''
            (replaceAll (CHR 0x5C # ''u003e'') ''>''
              (replaceAll (CHR 0x5C # ''u003c'') ''<'' content)))))"

text \<open>\<open>Map.set\<close>: a key that is there keeps its place.\<close>

fun map_set :: "string \<Rightarrow> string \<Rightarrow> (string \<times> string) list \<Rightarrow> (string \<times> string) list" where
  "map_set k v [] = [(k, v)]"
| "map_set k v (p # ps) = (if fst p = k then (k, v) # ps else p # map_set k v ps)"

text \<open>The payload of a push call: the second element of its array when that is a string.\<close>

definition push_payload :: "string \<Rightarrow> (js_error + string option)" where
  "push_payload pushCall =
     (case match_first push_rx pushCall of
        None \<Rightarrow> Inr None
      | Some (m, groups) \<Rightarrow>
          (case JSON_parse (capture 1 groups) of
             Inl e \<Rightarrow> Inl e
           | Inr (Arr pushData) \<Rightarrow>
               (case (if 2 \<le> length pushData then pushData ! 1 else Undefined) of
                  Str s \<Rightarrow> Inr (Some s)
                | _ \<Rightarrow> Inr None)
           | Inr _ \<Rightarrow> Inr None))"

text \<open>\<^verbatim>\<open>pushData[1].replace(/,$/, "")\<close>\<close>

definition without_final_comma :: "string \<Rightarrow> string" where
  "without_final_comma s = (if s \<noteq> [] \<and> last s = CHR '','' then butlast s else s)"

text \<open>
  The loop over the push calls: the news record found last and the table of references.
  A payload that is a reference marker takes the payload of the next push call as its
  content; any other payload with the \<^verbatim>\<open><int>:\<close> prefix is searched for a news record.
  An exception in one push call leaves the state as it is.
\<close>

fun scan_push_calls ::
  "string list \<Rightarrow> jsval option \<times> (string \<times> string) list \<Rightarrow>
   jsval option \<times> (string \<times> string) list" where
  "scan_push_calls [] st = st"
| "scan_push_calls (pushCall # rest) st =
     scan_push_calls rest
       (case push_payload pushCall of
          Inl e \<Rightarrow> st
        | Inr None \<Rightarrow> st
        | Inr (Some payload) \<Rightarrow>
            if match_first reference_rx payload \<noteq> None then
              (case rest of
                 [] \<Rightarrow> st
               | nextPushCall # _ \<Rightarrow>
                   (case push_payload nextPushCall of
                      Inr (Some content) \<Rightarrow>
                        (fst st, map_set (without_final_comma payload) content (snd st))
                    | _ \<Rightarrow> st))
            else
              (case match_first prefix_rx payload of
                 None \<Rightarrow> st
               | Some (m, groups) \<Rightarrow>
                   (case JSON_parse (capture 2 groups) of
                      Inl e \<Rightarrow> st
                    | Inr parsedContent \<Rightarrow>
                        (case searchForNewsDataInObject parsedContent of
                           None \<Rightarrow> st
                         | Some foundNewsData \<Rightarrow> (Some foundNewsData, snd st)))))"

text \<open>
  \<^verbatim>\<open>newsData.description.includes(refKey)\<close>: a substring test on a string, a membership
  test on an array, and a TypeError on any other value that is not empty.
\<close>

definition description_includes :: "jsval \<Rightarrow> string \<Rightarrow> js_error + bool" where
  "description_includes d refKey =
     (case d of
        Str s \<Rightarrow> Inr (str_includes s refKey)
      | Arr xs \<Rightarrow> Inr (Str refKey \<in> set xs)
      | _ \<Rightarrow> Inl TypeError)"

fun referenced_content :: "jsval \<Rightarrow> (string \<times> string) list \<Rightarrow> js_error + string" where
  "referenced_content d [] = Inr []"
| "referenced_content d (r # rs) =
     (case description_includes d (fst r) of
        Inl e \<Rightarrow> Inl e
      | Inr True \<Rightarrow> Inr (snd r)
      | Inr False \<Rightarrow> referenced_content d rs)"

text \<open>\<open>parseNewsDetailFromHtml\<close>; \<open>None\<close> is \<open>null\<close>.\<close>

definition parseNewsDetailFromHtml :: "host \<Rightarrow> string \<Rightarrow> string \<Rightarrow> NLobbyNewsDetail option" where
  "parseNewsDetailFromHtml h html newsId =
     (let nextFPushMatches = map fst (match_all push_rx html) in
      if nextFPushMatches = [] then None
      else
        (case scan_push_calls nextFPushMatches (None, []) of
           (None, contentReferences) \<Rightarrow> None
         | (Some newsData, contentReferences) \<Rightarrow>
             (case (if truthy (property newsData ''description'')
                    then referenced_content (property newsData ''description'') contentReferences
                    else Inr []) of
                Inl e \<Rightarrow> None
              | Inr byReference \<Rightarrow>
                  (let contentData =
                         (if byReference = [] \<and> contentReferences \<noteq> []
                          then snd (hd contentReferences) else byReference)
                   in Some
                     \<lparr>detail_id = or_else (property newsData ''id'') (Str newsId),
                      microCmsId = property newsData ''microCmsId'',
                      detail_title = or_else (property newsData ''title'') (Str ''No Title''),
                      detail_content =
                        or_else (Str (decodeHtmlContent contentData))
                          (or_else (property newsData ''description'') (Str [])),
                      detail_description = property newsData ''description'',
                      detail_publishedAt =
                        (if truthy (property newsData ''publishedAt'')
                         then Date_new h (property newsData ''publishedAt'') else Date_now h 0),
                      menuName = or_else (property newsData ''menuName'') (Arr []),
                      isImportant = or_else (property newsData ''isImportant'') (Bool False),
                      isByMentor = or_else (property newsData ''isByMentor'') (Bool False),
                      attachments = or_else (property newsData ''attachments'') (Arr []),
                      relatedEvents = or_else (property newsData ''relatedEvents'') (Arr []),
                      targetUserQueryId = property newsData ''targetUserQueryId'',
                      detail_url = baseUrl h @ ''/news/'' @ newsId\<rparr>))))"

section \<open>News: example pages\<close>

text \<open>
  A page that holds the given fragments as push calls, one \<open>script\<close> element each; the
  fragments \<^verbatim>\<open>[1,"5:[[\"$\",\"$L1\",null,{\"news\":[{\"id\":\"7\",\"title\":\"A\",\"description\":\"see 9:T5,\"}]}]]"]\<close>,
  \<^verbatim>\<open>[1,"9:Hello"]\<close>, \<^verbatim>\<open>[1,"9:T5,"]\<close> and \<^verbatim>\<open>[1,"Hello"]\<close>; the first fragment with the
  record as the object under \<open>news\<close>,
  \<^verbatim>\<open>[1,"5:[[\"$\",\"$L1\",null,{\"news\":{\"id\":\"7\",\"title\":\"A\",\"description\":\"see 9:T5,\"}}]]"]\<close>;
  and the fragments \<^verbatim>\<open>[1,"8:T3,"]\<close> and \<^verbatim>\<open>[1,"Bye"]\<close> of another reference.
\<close>

definition push_call :: "string \<Rightarrow> string" where
  "push_call fragment = ''self.__next_f.push('' @ fragment @ '')''"

definition page :: "string list \<Rightarrow> string" where
  "page fragments =
     concat (map (\<lambda>f. ''<script>'' @ push_call f @ ''</script>'') fragments)"

definition fragment_news :: string where
  "fragment_news =
     ''[1,''
       @ [CHR 0x22]
       @ ''5:[[''
       @ [CHR 0x5C, CHR 0x22]
       @ ''$''
       @ [CHR 0x5C, CHR 0x22]
       @ '',''
       @ [CHR 0x5C, CHR 0x22]
       @ ''$L1''
       @ [CHR 0x5C, CHR 0x22]
       @ '',null,{''
       @ [CHR 0x5C, CHR 0x22]
       @ ''news''
       @ [CHR 0x5C, CHR 0x22]
       @ '':[{''
       @ [CHR 0x5C, CHR 0x22]
       @ ''id''
       @ [CHR 0x5C, CHR 0x22]
       @ '':''
       @ [CHR 0x5C, CHR 0x22]
       @ ''7''
       @ [CHR 0x5C, CHR 0x22]
       @ '',''
       @ [CHR 0x5C, CHR 0x22]
       @ ''title''
       @ [CHR 0x5C, CHR 0x22]
       @ '':''
       @ [CHR 0x5C, CHR 0x22]
       @ ''A''
       @ [CHR 0x5C, CHR 0x22]
       @ '',''
       @ [CHR 0x5C, CHR 0x22]
       @ ''description''
       @ [CHR 0x5C, CHR 0x22]
       @ '':''
       @ [CHR 0x5C, CHR 0x22]
       @ ''see 9:T5,''
       @ [CHR 0x5C, CHR 0x22]
       @ ''}]}]]''
       @ [CHR 0x22]
       @ '']''"

definition fragment_record :: string where
  "fragment_record =
     ''[1,''
       @ [CHR 0x22]
       @ ''5:[[''
       @ [CHR 0x5C, CHR 0x22]
       @ ''$''
       @ [CHR 0x5C, CHR 0x22]
       @ '',''
       @ [CHR 0x5C, CHR 0x22]
       @ ''$L1''
       @ [CHR 0x5C, CHR 0x22]
       @ '',null,{''
       @ [CHR 0x5C, CHR 0x22]
       @ ''news''
       @ [CHR 0x5C, CHR 0x22]
       @ '':{''
       @ [CHR 0x5C, CHR 0x22]
       @ ''id''
       @ [CHR 0x5C, CHR 0x22]
       @ '':''
       @ [CHR 0x5C, CHR 0x22]
       @ ''7''
       @ [CHR 0x5C, CHR 0x22]
       @ '',''
       @ [CHR 0x5C, CHR 0x22]
       @ ''title''
       @ [CHR 0x5C, CHR 0x22]
       @ '':''
       @ [CHR 0x5C, CHR 0x22]
       @ ''A''
       @ [CHR 0x5C, CHR 0x22]
       @ '',''
       @ [CHR 0x5C, CHR 0x22]
       @ ''description''
       @ [CHR 0x5C, CHR 0x22]
       @ '':''
       @ [CHR 0x5C, CHR 0x22]
       @ ''see 9:T5,''
       @ [CHR 0x5C, CHR 0x22]
       @ ''}}]]''
       @ [CHR 0x22]
       @ '']''"

definition fragment_hello :: string where
  "fragment_hello = ''[1,'' @ [CHR 0x22] @ ''9:Hello'' @ [CHR 0x22] @ '']''"

definition fragment_marker :: string where
  "fragment_marker = ''[1,'' @ [CHR 0x22] @ ''9:T5,'' @ [CHR 0x22] @ '']''"

definition fragment_content :: string where
  "fragment_content = ''[1,'' @ [CHR 0x22] @ ''Hello'' @ [CHR 0x22] @ '']''"

definition fragment_other_marker :: string where
  "fragment_other_marker =
     ''[1,''
       @ [CHR 0x22]
       @ ''8:T3,''
       @ [CHR 0x22]
       @ '']''"

definition fragment_other_content :: string where
  "fragment_other_content =
     ''[1,''
       @ [CHR 0x22]
       @ ''Bye''
       @ [CHR 0x22]
       @ '']''"

text \<open>The record \<^verbatim>\<open>{"id":"7","title":"A","description":"see 9:T5,"}\<close>.\<close>

definition news_7 :: jsval where
  "news_7 = Obj [(''id'', Str ''7''), (''title'', Str ''A''), (''description'', Str ''see 9:T5,'')]"


section \<open>News: two runs\<close>

text \<open>
  Two records of two runs on hosts \<open>h\<close> and \<open>h'\<close> agree but for the clock when they are equal,
  or the first has the date that a reading of the clock of \<open>h\<close> gave it and the second is the
  same record with the same reading of the clock of \<open>h'\<close>.
\<close>

definition same_but_clock ::
  "host \<Rightarrow> host \<Rightarrow> NLobbyAnnouncement \<Rightarrow> NLobbyAnnouncement \<Rightarrow> bool" where
  "same_but_clock h h' a b =
     (a = b \<or> (\<exists>k. publishedAt a = Date_now h k \<and> b = a\<lparr>publishedAt := Date_now h' k\<rparr>))"

text \<open>The example host a minute later.\<close>

definition later_host :: host where
  "later_host = example_host\<lparr>now := (\<lambda>k. 1700000060000 + int k)\<rparr>"

section \<open>News: identifiers and addresses\<close>








section \<open>Rounding to double precision\<close>

lemma pow2_powi: "pow2 e = power_int 2 e"
  by (simp add: pow2_def power_int_def field_simps)

lemma pow2_pos: "0 < pow2 e"
  by (simp add: pow2_powi)

lemma pow2_add: "pow2 (i + j) = pow2 i * pow2 j"
  by (simp add: pow2_powi power_int_add)

lemma pow2_nat: "0 \<le> j \<Longrightarrow> pow2 j = of_int (2 ^ nat j)"
  by (simp add: pow2_def)

lemma pow2_mono: "i \<le> j \<Longrightarrow> pow2 i \<le> pow2 j"
  by (simp add: pow2_powi power_int_increasing)

lemma pow2_strict_mono: "i < j \<Longrightarrow> pow2 i < pow2 j"
  by (simp add: pow2_powi power_int_strict_increasing)

lemma rne_le: "y \<le> of_int k \<Longrightarrow> rne y \<le> k"
proof (cases "y = of_int k")
  case True
  then show ?thesis by (simp add: rne_def)
next
  case False
  assume "y \<le> of_int k"
  with False have "y < of_int k" by simp
  then have "\<lfloor>y\<rfloor> < k" by (simp add: floor_less_iff)
  then show ?thesis by (auto simp: rne_def Let_def)
qed

lemma rne_ge: "of_int k \<le> y \<Longrightarrow> k \<le> rne y"
proof -
  assume "of_int k \<le> y"
  then have "k \<le> \<lfloor>y\<rfloor>" by (simp add: le_floor_iff)
  then show ?thesis by (auto simp: rne_def Let_def)
qed

lemma fl_grid_le:
  assumes j: "binade \<bar>x\<bar> - 52 \<le> j" and le: "x \<le> of_int m * pow2 j"
  shows "fl x \<le> of_int m * pow2 j"
proof (cases "x = 0")
  case True
  with le show ?thesis by (simp add: fl_def)
next
  case False
  define i where "i = binade \<bar>x\<bar> - 52"
  define u where "u = pow2 i"
  have u: "0 < u" by (simp add: u_def pow2_pos)
  have "pow2 j = pow2 (j - i) * u"
    unfolding u_def by (simp add: pow2_add [symmetric])
  also have "pow2 (j - i) = of_int (2 ^ nat (j - i))"
    using j by (simp add: pow2_nat i_def)
  finally have g: "of_int m * pow2 j = of_int (m * 2 ^ nat (j - i)) * u"
    by simp
  from le u have "x / u \<le> of_int (m * 2 ^ nat (j - i))"
    unfolding g by (simp add: pos_divide_le_eq)
  then have "rne (x / u) \<le> m * 2 ^ nat (j - i)" by (rule rne_le)
  then have "(of_int (rne (x / u)) :: rat) \<le> of_int (m * 2 ^ nat (j - i))"
    by (simp only: of_int_le_iff)
  with u have "of_int (rne (x / u)) * u \<le> of_int (m * 2 ^ nat (j - i)) * u"
    by (simp only: mult_le_cancel_right_pos)
  with False show ?thesis
    unfolding g by (simp add: fl_def Let_def u_def i_def)
qed

lemma fl_grid_ge:
  assumes j: "binade \<bar>x\<bar> - 52 \<le> j" and le: "of_int m * pow2 j \<le> x"
  shows "of_int m * pow2 j \<le> fl x"
proof (cases "x = 0")
  case True
  with le show ?thesis by (simp add: fl_def)
next
  case False
  define i where "i = binade \<bar>x\<bar> - 52"
  define u where "u = pow2 i"
  have u: "0 < u" by (simp add: u_def pow2_pos)
  have "pow2 j = pow2 (j - i) * u"
    unfolding u_def by (simp add: pow2_add [symmetric])
  also have "pow2 (j - i) = of_int (2 ^ nat (j - i))"
    using j by (simp add: pow2_nat i_def)
  finally have g: "of_int m * pow2 j = of_int (m * 2 ^ nat (j - i)) * u"
    by simp
  from le u have "of_int (m * 2 ^ nat (j - i)) \<le> x / u"
    unfolding g by (simp add: pos_le_divide_eq)
  then have "m * 2 ^ nat (j - i) \<le> rne (x / u)" by (rule rne_ge)
  then have "(of_int (m * 2 ^ nat (j - i)) :: rat) \<le> of_int (rne (x / u))"
    by (simp only: of_int_le_iff)
  with u have "of_int (m * 2 ^ nat (j - i)) * u \<le> of_int (rne (x / u)) * u"
    by (simp only: mult_le_cancel_right_pos)
  with False show ?thesis
    unfolding g by (simp add: fl_def Let_def u_def i_def)
qed

text \<open>The binade of a positive number is the exponent of the largest power of two below it.\<close>

lemma binade_lower: assumes "0 < x" shows "pow2 (binade x) \<le> x"
proof -
  obtain p q where pq: "quotient_of x = (p, q)" by (cases "quotient_of x")
  then have q: "0 < q" by (rule quotient_of_denom_pos)
  from pq have x: "x = of_int p / of_int q" by (rule quotient_of_div)
  with assms q have p: "0 < p" by (simp add: zero_less_divide_iff)
  define d where "d = bitlen p - bitlen q"
  show ?thesis
  proof (cases "pow2 d \<le> x")
    case True
    then show ?thesis by (simp add: binade_def pq d_def Let_def)
  next
    case False
    have bp: "2 ^ nat (bitlen p - 1) \<le> p" using bitlen_bounds [OF p] by simp
    have bq: "q < 2 ^ nat (bitlen q)" using bitlen_bounds [OF q] by simp
    have lp: "0 < bitlen p"
      using p bitlen_eq_zero_iff [of p] bitlen_nonneg [of p] by linarith
    have lq: "0 < bitlen q"
      using q bitlen_eq_zero_iff [of q] bitlen_nonneg [of q] by linarith
    have "pow2 (d - 1) * of_int q \<le> pow2 (d - 1) * 2 ^ nat (bitlen q)"
      using bq pow2_pos [of "d - 1"]
      by (metis less_imp_le mult_left_mono of_int_le_iff of_int_numeral of_int_power)
    also have "\<dots> = pow2 (d - 1) * pow2 (bitlen q)"
      using lq by (simp add: pow2_def)
    also have "\<dots> = pow2 (bitlen p - 1)"
      by (simp add: pow2_add [symmetric] d_def)
    also have "\<dots> = 2 ^ nat (bitlen p - 1)"
      using lp by (simp add: pow2_def)
    also have "\<dots> \<le> of_int p"
      using bp by (metis of_int_le_iff of_int_numeral of_int_power)
    finally have "pow2 (d - 1) \<le> of_int p / of_int q"
      using q by (simp add: pos_le_divide_eq)
    then have "pow2 (d - 1) \<le> x" by (simp only: x)
    with False show ?thesis by (simp add: binade_def pq d_def Let_def)
  qed
qed

lemma binade_less: "0 < x \<Longrightarrow> x < pow2 k \<Longrightarrow> binade x < k"
proof (rule ccontr)
  assume x: "0 < x" "x < pow2 k" and "\<not> binade x < k"
  then have "pow2 k \<le> pow2 (binade x)" by (simp add: pow2_mono)
  also have "\<dots> \<le> x" using x(1) by (rule binade_lower)
  finally show False using x(2) by simp
qed


lemma pow2_numeral [simp]: "pow2 0 = 1" "pow2 (- 1) = 1 / 2" "pow2 53 = 2 ^ 53" "pow2 52 = 2 ^ 52"
  "pow2 (- 52) = 1 / 2 ^ 52"
  by (simp_all add: pow2_def)

lemma fl_of_int: assumes "\<bar>a\<bar> < 2 ^ 53" shows "fl (of_int a) = of_int a"
proof (cases "a = 0")
  case True
  then show ?thesis by (simp add: fl_def)
next
  case False
  then have "0 < \<bar>rat_of_int a\<bar>" by simp
  moreover have "\<bar>rat_of_int a\<bar> < pow2 53"
    using assms by (metis of_int_abs of_int_less_iff of_int_numeral of_int_power pow2_numeral(3))
  ultimately have "binade \<bar>rat_of_int a\<bar> < 53" by (rule binade_less)
  then have j: "binade \<bar>rat_of_int a\<bar> - 52 \<le> 0" by simp
  have "fl (of_int a) \<le> of_int a * pow2 0"
    by (rule fl_grid_le [OF j]) simp
  moreover have "of_int a * pow2 0 \<le> fl (of_int a)"
    by (rule fl_grid_ge [OF j]) simp
  ultimately show ?thesis by simp
qed

lemma Math_round_fl_quotient:
  assumes S: "\<bar>S\<bar> \<le> 2 ^ 51" and n: "0 < n"
  shows "Math_round (fl (of_int S / of_nat n)) = Math_round (of_int S / of_nat n)"
proof -
  define x :: rat where "x = of_int S / of_nat n"
  define k where "k = \<lfloor>x + 1 / 2\<rfloor>"
  have n': "(0::rat) < of_nat n" "(1::rat) \<le> of_nat n" using n by simp_all
  have lo: "of_int k \<le> x + 1 / 2" unfolding k_def by (rule of_int_floor_le)
  have hi: "x + 1 / 2 < of_int k + 1"
    using floor_correct [of "x + 1 / 2"] by (simp add: k_def)
  show ?thesis
  proof (cases "x = 0")
    case True
    then show ?thesis by (simp add: x_def [symmetric] fl_def)
  next
    case False
    define i where "i = binade \<bar>x\<bar> - 52"
    have absx: "\<bar>x\<bar> * of_nat n = of_int \<bar>S\<bar>"
      using n' by (simp add: x_def)
    have "\<bar>x\<bar> \<le> \<bar>x\<bar> * of_nat n" using n'(2) by (simp add: mult_le_cancel_left1)
    also have "\<dots> \<le> 2 ^ 51" unfolding absx using S
      by (metis of_int_le_iff of_int_numeral of_int_power)
    finally have x51: "\<bar>x\<bar> \<le> 2 ^ 51" .
    then have "\<bar>x\<bar> < pow2 52" by simp
    with False have "binade \<bar>x\<bar> < 52" by (intro binade_less) simp_all
    then have i: "i \<le> - 1" by (simp add: i_def)
    have "of_int (2 * k - 1) * pow2 (- 1) \<le> x" using lo by simp
    then have "of_int (2 * k - 1) * pow2 (- 1) \<le> fl x"
      using i by (intro fl_grid_ge) (simp_all add: i_def)
    then have low: "of_int k \<le> fl x + 1 / 2" by simp
    define M where "M = (2 * k + 1) * 2 ^ nat (- 1 - i) - 1"
    have "pow2 (- 1 - i) = of_int (2 ^ nat (- 1 - i))" using i by (intro pow2_nat) simp
    then have "of_int M * pow2 i = of_int (2 * k + 1) * (pow2 (- 1 - i) * pow2 i) - pow2 i"
      by (simp add: M_def algebra_simps)
    also have "pow2 (- 1 - i) * pow2 i = pow2 (- 1)" by (simp add: pow2_add [symmetric])
    finally have M: "of_int M * pow2 i = (of_int k + 1 / 2) - pow2 i" by simp
    have "pow2 i = pow2 (binade \<bar>x\<bar>) * pow2 (- 52)"
      by (simp only: i_def diff_conv_add_uminus pow2_add)
    also have "\<dots> \<le> \<bar>x\<bar> * pow2 (- 52)"
      using binade_lower [of "\<bar>x\<bar>"] False pow2_pos [of "- 52"]
      by (simp only: mult_le_cancel_right_pos)
    finally have "pow2 i * of_nat n \<le> (\<bar>x\<bar> * pow2 (- 52)) * of_nat n"
      using n'(1) by (simp only: mult_le_cancel_right_pos)
    also have "\<dots> = (\<bar>x\<bar> * of_nat n) * pow2 (- 52)" by (simp only: mult_ac)
    also have "\<dots> = of_int \<bar>S\<bar> / 2 ^ 52" by (simp only: absx) simp
    finally have u1: "pow2 i * of_nat n \<le> of_int \<bar>S\<bar> / 2 ^ 52" .
    have "rat_of_int \<bar>S\<bar> \<le> 2 ^ 51" using S
      by (metis of_int_le_iff of_int_numeral of_int_power)
    with u1 have u2: "pow2 i * of_nat n \<le> 1 / 2" by simp
    have "rat_of_int S < of_int k * of_nat n + of_nat n / 2"
      using hi n' by (simp add: x_def field_simps)
    then have "rat_of_int (2 * S) < of_int ((2 * k + 1) * int n)"
      by (simp add: algebra_simps)
    then have "2 * S < (2 * k + 1) * int n" by (simp only: of_int_less_iff)
    then have "2 * S + 1 \<le> (2 * k + 1) * int n" by simp
    then have "rat_of_int (2 * S + 1) \<le> of_int ((2 * k + 1) * int n)"
      by (simp only: of_int_le_iff)
    then have "rat_of_int S + 1 / 2 \<le> (of_int k + 1 / 2) * of_nat n"
      by (simp add: algebra_simps)
    with u2 have "rat_of_int S + pow2 i * of_nat n \<le> (of_int k + 1 / 2) * of_nat n" by simp
    then have "x * of_nat n \<le> ((of_int k + 1 / 2) - pow2 i) * of_nat n"
      using n' by (simp add: x_def algebra_simps)
    then have "x \<le> (of_int k + 1 / 2) - pow2 i"
      using n'(1) by (simp only: mult_le_cancel_right_pos)
    then have "x \<le> of_int M * pow2 i" by (simp only: M)
    then have "fl x \<le> of_int M * pow2 i"
      by (intro fl_grid_le) (simp_all add: i_def)
    then have "fl x < of_int k + 1 / 2"
      using pow2_pos [of i] by (simp add: M)
    then have up: "fl x + 1 / 2 < of_int k + 1" by simp
    from low up have "\<lfloor>fl x + 1 / 2\<rfloor> = k" by (intro floor_unique) simp_all
    then show ?thesis by (simp add: Math_round_def x_def [symmetric] k_def)
  qed
qed

section \<open>Progress percentage\<close>

text \<open>
  C7. The claim is that the progress percentage equals \<open>round(100 * count / allCount)\<close>
  when \<open>allCount\<close> is nonzero. The code divides first and multiplies afterwards, in double
  precision: for \<open>count = 23\<close> and \<open>allCount = 40\<close> the exact percentage is 57.5, which
  rounds to 58, but the double product is 57.49999999999999 and the code returns 57. The two
  values the claim singles out are as stated: 75 for 3 of 4, and 0 when \<open>allCount\<close> is 0.
\<close>

theorem calculateProgressPercentage_tie_lost:
  "calculateProgressPercentage \<lparr>count = 23, allCount = 40\<rparr> = 57
   \<and> Math_round (100 * 23 / 40) = 58
   \<and> calculateProgressPercentage \<lparr>count = 3, allCount = 4\<rparr> = 75
   \<and> calculateProgressPercentage \<lparr>count = c, allCount = 0\<rparr> = 0"
proof -
  have a: "calculateProgressPercentage \<lparr>count = 23, allCount = 40\<rparr> = 57"
    by code_simp
  have b: "Math_round (100 * 23 / 40) = 58"
    by code_simp
  have c: "calculateProgressPercentage \<lparr>count = 3, allCount = 4\<rparr> = 75"
    by code_simp
  have d: "calculateProgressPercentage \<lparr>count = c, allCount = 0\<rparr> = 0"
    by (simp add: calculateProgressPercentage_def)
  from a b c d show ?thesis by blast
qed

section \<open>Average score\<close>

lemma totalScore_exact:
  "\<forall>d\<in>set ds. \<exists>n. score_or_0 d = of_int n \<Longrightarrow>
   \<bar>of_int a\<bar> + (\<Sum>d\<leftarrow>ds. \<bar>score_or_0 d\<bar>) < 2 ^ 53 \<Longrightarrow>
   foldl (\<lambda>sum detail. fl (sum + score_or_0 detail)) (of_int a) ds
     = of_int a + (\<Sum>d\<leftarrow>ds. score_or_0 d)"
proof (induction ds arbitrary: a)
  case Nil
  then show ?case by simp
next
  case (Cons d ds)
  from Cons.prems(1) obtain n where n: "score_or_0 d = of_int n" by auto
  have nn: "0 \<le> (\<Sum>d\<leftarrow>ds. \<bar>score_or_0 d\<bar>)"
    by (rule sum_list_nonneg) auto
  have "\<bar>rat_of_int a\<bar> + \<bar>rat_of_int n\<bar> < 2 ^ 53" using Cons.prems(2) nn by (simp add: n)
  then have "rat_of_int \<bar>a + n\<bar> < rat_of_int (2 ^ 53)" by simp
  then have "\<bar>a + n\<bar> < 2 ^ 53" by (simp only: of_int_less_iff)
  then have f: "fl (of_int (a + n)) = of_int (a + n)"
    by (rule fl_of_int)
  have "\<bar>rat_of_int (a + n)\<bar> + (\<Sum>d\<leftarrow>ds. \<bar>score_or_0 d\<bar>) < 2 ^ 53"
    using Cons.prems(2) by (simp add: n)
  moreover have "\<forall>d\<in>set ds. \<exists>n. score_or_0 d = of_int n" using Cons.prems(1) by simp
  ultimately have "foldl (\<lambda>sum detail. fl (sum + score_or_0 detail)) (of_int (a + n)) ds
      = of_int (a + n) + (\<Sum>d\<leftarrow>ds. score_or_0 d)"
    by (intro Cons.IH)
  then show ?case using f by (simp add: n add.assoc)
qed

lemma qualifying_scores_eq:
  "\<forall>d\<in>set ds. score d \<noteq> Score_undefined \<Longrightarrow>
   qualifying_scores ds = map score_or_0 (scoresWithValues ds)"
  by (induction ds)
     (auto simp: qualifying_scores_def scoresWithValues_def score_or_0_def
        List.map_filter_simps split: score_value.splits)

lemma sum_list_of_int:
  "\<forall>x\<in>set xs. \<exists>n. f x = rat_of_int n \<Longrightarrow> \<exists>S. (\<Sum>x\<leftarrow>xs. f x) = rat_of_int S"
proof (induction xs)
  case Nil
  have "sum_list (map f []) = rat_of_int 0" by simp
  then show ?case by blast
next
  case (Cons x xs)
  then obtain n S where "f x = rat_of_int n" "(\<Sum>x\<leftarrow>xs. f x) = rat_of_int S" by auto
  then have "(\<Sum>x\<leftarrow>x # xs. f x) = rat_of_int (n + S)" by simp
  then show ?case by blast
qed

text \<open>
  Where every score is given and an integer, and the absolute values of the qualifying
  scores sum to at most \<open>2^51\<close>, all sums are exact and the average is the rounded mean.
\<close>

lemma calculateAverageScore_integer_scores:
  assumes given: "\<forall>d\<in>set reportDetails. score d \<noteq> Score_undefined"
    and ints: "\<forall>d\<in>set reportDetails. \<exists>n. score_or_0 d = of_int n"
    and bound: "(\<Sum>s\<leftarrow>qualifying_scores reportDetails. \<bar>s\<bar>) \<le> 2 ^ 51"
  shows "calculateAverageScore reportDetails = rounded_mean (qualifying_scores reportDetails)"
proof -
  define ds where "ds = scoresWithValues reportDetails"
  have q: "qualifying_scores reportDetails = map score_or_0 ds"
    using given by (simp add: qualifying_scores_eq ds_def)
  have i: "\<forall>d\<in>set ds. \<exists>n. score_or_0 d = of_int n"
    using ints by (simp add: ds_def scoresWithValues_def)
  have b: "(\<Sum>d\<leftarrow>ds. \<bar>score_or_0 d\<bar>) \<le> 2 ^ 51"
    using bound by (simp add: q o_def)
  from sum_list_of_int [OF i] obtain S where S: "(\<Sum>d\<leftarrow>ds. score_or_0 d) = rat_of_int S"
    by blast
  have "\<bar>\<Sum>d\<leftarrow>ds. score_or_0 d\<bar> \<le> (\<Sum>d\<leftarrow>ds. \<bar>score_or_0 d\<bar>)"
    using sum_list_abs [of "map score_or_0 ds"] by (simp add: o_def)
  with b have "\<bar>rat_of_int S\<bar> \<le> 2 ^ 51" by (simp add: S)
  then have "rat_of_int \<bar>S\<bar> \<le> rat_of_int (2 ^ 51)" by simp
  then have S51: "\<bar>S\<bar> \<le> 2 ^ 51" by (simp only: of_int_le_iff)
  have "foldl (\<lambda>sum detail. fl (sum + score_or_0 detail)) (of_int 0) ds
      = of_int 0 + (\<Sum>d\<leftarrow>ds. score_or_0 d)"
    using b i by (intro totalScore_exact) simp_all
  then have t: "totalScore ds = of_int S"
    by (simp add: totalScore_def S)
  show ?thesis
  proof (cases "ds = []")
    case True
    then show ?thesis
      by (simp add: calculateAverageScore_def ds_def [symmetric] q rounded_mean_def)
  next
    case False
    then have n: "0 < length ds" by simp
    have "Math_round (fl (of_int S / of_nat (length ds)))
        = Math_round (of_int S / of_nat (length ds))"
      using S51 n by (rule Math_round_fl_quotient)
    with False show ?thesis
      by (simp add: calculateAverageScore_def ds_def [symmetric] q rounded_mean_def t
          Math_round_def round_def o_def S)
  qed
qed

lemma calculateAverageScore_None:
  "(calculateAverageScore ds = None)
     = list_all (\<lambda>d. score d = Score_null \<or> progress d \<noteq> 100) ds"
  by (auto simp: calculateAverageScore_def scoresWithValues_def Let_def filter_empty_conv
      list_all_iff)

text \<open>
  C6. The claim is that the average score is the rounded mean of the scores of the entries
  that are scored and 100 percent complete, and \<open>null\<close> when there is none. The code adds
  the scores one by one in double precision and divides the rounded sum: for the four
  complete entries with the scores 97.2, 51, 34.2 and 35.6 the mean is 54.5, which rounds to
  55, but the sum is 217.99999999999997, the quotient is 54.49999999999999, and the code
  returns 54. The example of the claim gives 80 as stated, and the result is \<open>null\<close> exactly
  when no entry is scored and complete.
\<close>

theorem calculateAverageScore_tie_lost:
  "calculateAverageScore decimal_example = Some 54
   \<and> rounded_mean (qualifying_scores decimal_example) = Some 55
   \<and> rounded_mean [972 / 10, 51, 342 / 10, 356 / 10] = Some 55
   \<and> calculateAverageScore scored_example = Some 80
   \<and> rounded_mean (qualifying_scores scored_example) = Some 80
   \<and> (calculateAverageScore ds = None)
       = list_all (\<lambda>d. score d = Score_null \<or> progress d \<noteq> 100) ds"
proof -
  have a: "calculateAverageScore decimal_example = Some 54"
    by code_simp
  have b: "rounded_mean (qualifying_scores decimal_example) = Some 55"
    by code_simp
  have c: "rounded_mean [972 / 10, 51, 342 / 10, 356 / 10] = Some 55"
    by code_simp
  have d: "calculateAverageScore scored_example = Some 80"
    by code_simp
  have e: "rounded_mean (qualifying_scores scored_example) = Some 80"
    by code_simp
  from a b c d e calculateAverageScore_None [of ds] show ?thesis by blast
qed
section \<open>Percent encoding and decoding\<close>


lemma code_char_of: "n < 256 \<Longrightarrow> code (char_of n) = n"
  by (simp add: code_def)

lemma hexval_hexdigit: "d < 16 \<Longrightarrow> hexval (hexdigit d) = Some d"
  by (auto simp: hexval_def hexdigit_def code_char_of)

lemma uriUnescaped_hexdigit: "d < 16 \<Longrightarrow> uriUnescaped (hexdigit d)"
  by (auto simp: uriUnescaped_def hexdigit_def code_char_of)

lemma code_less_256: "code c < 256"
  by (simp add: code_def)

lemma char_of_code: "char_of (code c) = c"
  by (simp add: code_def)

lemma pct_octet_encode:
  "\<not> uriUnescaped b \<Longrightarrow> pct_octet (encode_octet b @ r) = Some b"
proof -
  assume "\<not> uriUnescaped b"
  have "code b div 16 < 16" using code_less_256 [of b] by simp
  moreover have "code b mod 16 < 16" by simp
  moreover have "char_of (16 * (code b div 16) + code b mod 16) = b"
    by (simp add: char_of_code)
  ultimately show ?thesis using \<open>\<not> uriUnescaped b\<close>
    by (simp add: encode_octet_def hexval_hexdigit)
qed

lemma not_unescaped_percent: "\<not> uriUnescaped CHR ''%''"
  by (simp add: uriUnescaped_def code_def)

lemma not_unescaped_high: "128 \<le> code b \<Longrightarrow> \<not> uriUnescaped b"
  by (auto simp: uriUnescaped_def)

lemma encode_octet_escaped:
  "\<not> uriUnescaped b \<Longrightarrow>
   encode_octet b = [CHR ''%'', hexdigit (code b div 16), hexdigit (code b mod 16)]"
  by (simp add: encode_octet_def)

lemma decode_unescaped:
  "uriUnescaped b \<Longrightarrow>
   decodeURIComponent (encode_octet b @ r) =
     (case decodeURIComponent r of Inl e \<Rightarrow> Inl e | Inr x \<Rightarrow> Inr (b # x))"
  using not_unescaped_percent by (auto simp: encode_octet_def)

lemma decode_ascii:
  assumes "\<not> uriUnescaped b" "leading_ones b = 0"
  shows "decodeURIComponent (encode_octet b @ r) =
     (case decodeURIComponent r of Inl e \<Rightarrow> Inl e | Inr x \<Rightarrow> Inr (b # x))"
proof -
  have p: "pct_octet (CHR ''%'' # hexdigit (code b div 16) # hexdigit (code b mod 16) # r) = Some b"
    using pct_octet_encode [OF assms(1), of r] assms(1) by (simp add: encode_octet_escaped)
  show ?thesis
    using assms by (simp add: encode_octet_escaped p del: pct_octet.simps)
qed


lemma valid_char_length: "valid_char (b # bs) \<Longrightarrow> length (b # bs) = leading_ones b"
  by (induction "b # bs" rule: valid_char.induct) (auto simp: leading_ones_def)

lemma valid_char_high: "valid_char bs \<Longrightarrow> c \<in> set bs \<Longrightarrow> 128 \<le> code c"
  by (induction bs rule: valid_char.induct) (auto simp: is_cont_def)

lemma pct_octets_enc:
  "\<forall>c \<in> set bs. \<not> uriUnescaped c \<Longrightarrow> pct_octets (length bs) (encode_octets bs @ r) = Some bs"
proof (induction bs)
  case Nil
  then show ?case by (simp add: encode_octets_def)
next
  case (Cons b bs)
  then have b: "\<not> uriUnescaped b" by simp
  have "pct_octet (encode_octet b @ encode_octets bs @ r) = Some b"
    using b by (rule pct_octet_encode)
  moreover have "drop 3 (encode_octet b @ encode_octets bs @ r) = encode_octets bs @ r"
    using b by (simp add: encode_octet_escaped)
  ultimately show ?case using Cons by (simp add: encode_octets_def)
qed

lemma enc_Cons: "encode_octets (b # bs) = encode_octet b @ encode_octets bs"
  by (simp add: encode_octets_def)

lemma enc_append: "encode_octets (a @ b) = encode_octets a @ encode_octets b"
  by (simp add: encode_octets_def)

lemma length_enc_escaped:
  "\<forall>c \<in> set bs. \<not> uriUnescaped c \<Longrightarrow> length (encode_octets bs) = 3 * length bs"
  by (induction bs) (simp_all add: encode_octets_def encode_octet_escaped)

lemma decode_multi:
  assumes v: "valid_char (b # bs)"
  shows "decodeURIComponent (encode_octets (b # bs) @ r) =
     (case decodeURIComponent r of Inl e \<Rightarrow> Inl e | Inr x \<Rightarrow> Inr (b # bs @ x))"
proof -
  have n: "leading_ones b = Suc (length bs)" using valid_char_length [OF v] by simp
  have hi: "\<forall>c \<in> set (b # bs). \<not> uriUnescaped c"
    using valid_char_high [OF v] not_unescaped_high by blast
  then have b: "\<not> uriUnescaped b" and bs: "\<forall>c \<in> set bs. \<not> uriUnescaped c" by simp_all
  have len: "1 \<le> length bs \<and> length bs \<le> 3"
    using v by (induction "b # bs" rule: valid_char.induct) auto
  define h where "h = hexdigit (code b div 16)"
  define l where "l = hexdigit (code b mod 16)"
  have e: "encode_octets (b # bs) @ r = CHR ''%'' # h # l # encode_octets bs @ r"
    using b by (simp add: enc_Cons encode_octet_escaped h_def l_def)
  have p: "pct_octet (CHR ''%'' # h # l # encode_octets bs @ r) = Some b"
    using pct_octet_encode [OF b, of "encode_octets bs @ r"] b
    by (simp add: encode_octet_escaped h_def l_def)
  have q: "pct_octets (length bs) (encode_octets bs @ r) = Some bs"
    using bs by (rule pct_octets_enc)
  have le: "length (encode_octets bs) = 3 * length bs"
    using bs by (rule length_enc_escaped)
  have ne: "bs \<noteq> []" using len by auto
  show ?thesis
    unfolding e using n len ne v p q
    by (simp add: le del: pct_octet.simps valid_char.simps)
qed

lemma decode_enc_append:
  "well_formed s \<Longrightarrow>
   decodeURIComponent (encode_octets s @ r) =
     (case decodeURIComponent r of Inl e \<Rightarrow> Inl e | Inr x \<Rightarrow> Inr (s @ x))"
proof (induction s arbitrary: r rule: well_formed.induct)
  case 1
  then show ?case by (simp add: encode_octets_def split: sum.splits)
next
  case (2 b bs)
  define n where "n = leading_ones b"
  show ?case
  proof (cases "n = 0")
    case True
    then have wf: "well_formed bs" using "2.prems" by (simp add: n_def)
    have ih: "decodeURIComponent (encode_octets bs @ r) =
       (case decodeURIComponent r of Inl e \<Rightarrow> Inl e | Inr x \<Rightarrow> Inr (bs @ x))"
      using "2.IH"(1) [OF n_def [symmetric, THEN sym] True wf] .
    have "decodeURIComponent (encode_octet b @ encode_octets bs @ r) =
       (case decodeURIComponent (encode_octets bs @ r) of Inl e \<Rightarrow> Inl e | Inr x \<Rightarrow> Inr (b # x))"
      using True decode_unescaped decode_ascii by (cases "uriUnescaped b") (auto simp: n_def)
    then show ?thesis by (simp add: enc_Cons ih split: sum.splits)
  next
    case False
    then have v: "valid_char (take n (b # bs))" and wf: "well_formed (drop (n - 1) bs)"
      using "2.prems" by (auto simp: n_def Let_def split: if_splits)
    from False obtain m where m: "n = Suc m" by (cases n) auto
    have t: "take n (b # bs) = b # take m bs" by (simp add: m)
    have ih: "decodeURIComponent (encode_octets (drop m bs) @ r) =
       (case decodeURIComponent r of Inl e \<Rightarrow> Inl e | Inr x \<Rightarrow> Inr (drop m bs @ x))"
      using "2.IH"(2) [OF n_def [symmetric, THEN sym] False _ wf] v
      by (simp add: m cong: sum.case_cong)
    have "encode_octets (b # bs) = encode_octets (b # take m bs) @ encode_octets (drop m bs)"
      by (metis append_Cons append_take_drop_id enc_append)
    then have "decodeURIComponent (encode_octets (b # bs) @ r) =
       (case decodeURIComponent (encode_octets (drop m bs) @ r) of
          Inl e \<Rightarrow> Inl e | Inr x \<Rightarrow> Inr (b # take m bs @ x))"
      using decode_multi [of b "take m bs" "encode_octets (drop m bs) @ r"] v t by simp
    then show ?thesis by (simp add: ih split: sum.splits)
  qed
qed

lemma decode_encode:
  "well_formed s \<Longrightarrow> decodeURIComponent (encode_octets s) = Inr s"
  using decode_enc_append [of s "[]"] by simp


subsection \<open>Characters of an encoded component\<close>

lemma unescaped_plain: "uriUnescaped c \<or> c = CHR ''%'' \<Longrightarrow> plain c"
  by (auto simp: uriUnescaped_def plain_def ascii_ws_def code_def)

lemma unescaped_not_sep:
  "uriUnescaped c \<or> c = CHR ''%'' \<Longrightarrow> c \<noteq> CHR '';'' \<and> c \<noteq> CHR ''=''"
  by (auto simp: uriUnescaped_def code_def)

lemma encode_octet_chars:
  "c \<in> set (encode_octet b) \<Longrightarrow> uriUnescaped c \<or> c = CHR ''%''"
proof -
  have "code b div 16 < 16" using code_less_256 [of b] by simp
  moreover have "code b mod 16 < 16" by simp
  moreover assume "c \<in> set (encode_octet b)"
  ultimately show ?thesis
    by (auto simp: encode_octet_def uriUnescaped_hexdigit split: if_splits)
qed

lemma encode_octets_chars:
  "c \<in> set (encode_octets s) \<Longrightarrow> uriUnescaped c \<or> c = CHR ''%''"
  by (auto simp: encode_octets_def dest: encode_octet_chars)

lemma encode_octets_nonempty: "s \<noteq> [] \<Longrightarrow> encode_octets s \<noteq> []"
  by (cases s) (auto simp: encode_octets_def encode_octet_def)

subsection \<open>Trimming and splitting\<close>

lemma ws_len_plain: "plain c \<Longrightarrow> ws_len (c # cs) = 0"
  by (cases "c # cs" rule: ws_len.cases) (auto simp: plain_def)

lemma ws_len_rev_plain: "plain c \<Longrightarrow> ws_len_rev (c # cs) = 0"
  by (cases "c # cs" rule: ws_len_rev.cases) (auto simp: plain_def)

lemma trimStart_plain: "plain c \<Longrightarrow> trimStart (c # cs) = c # cs"
  by (subst trimStart.simps) (simp add: ws_len_plain)

lemma trimEnd_rev_plain: "plain c \<Longrightarrow> trimEnd_rev (c # cs) = c # cs"
  by (subst trimEnd_rev.simps) (simp add: ws_len_rev_plain)

lemma trimStart_Nil: "trimStart [] = []"
  by (subst trimStart.simps) simp

lemma trimEnd_rev_Nil: "trimEnd_rev [] = []"
  by (subst trimEnd_rev.simps) simp

lemma trim_Nil: "trim [] = []"
  by (simp add: trim_def trimStart_Nil trimEnd_rev_Nil)

lemma ws_len_space: "ws_len (CHR '' '' # cs) = 1"
  by (cases "CHR '' '' # cs" rule: ws_len.cases) (auto simp: ascii_ws_def code_def)

lemma trimStart_space: "trimStart (CHR '' '' # cs) = trimStart cs"
  by (subst trimStart.simps) (simp add: ws_len_space)

lemma trim_plain:
  assumes "s \<noteq> []" "plain (hd s)" "plain (last s)"
  shows "trim s = s" "trim (CHR '' '' # s) = s"
proof -
  obtain c cs where s: "s = c # cs" using assms(1) by (cases s) auto
  have a: "trimStart s = s" using assms(2) unfolding s by (simp only: list.sel trimStart_plain)
  obtain d ds where r: "rev s = d # ds" using assms(1) by (cases "rev s") auto
  then have "d = last s" using assms(1) by (metis last_rev list.sel(1) rev_rev_ident hd_rev)
  then have b: "trimEnd_rev (rev s) = rev s"
    using assms(3) unfolding r by (simp only: trimEnd_rev_plain)
  show "trim s = s" by (simp only: trim_def a b rev_rev_ident)
  show "trim (CHR '' '' # s) = s" by (simp only: trim_def trimStart_space a b rev_rev_ident)
qed

lemma split_notin: "sep \<notin> set s \<Longrightarrow> split sep s = [s]"
  by (induction s) auto

lemma split_append: "sep \<notin> set a \<Longrightarrow> split sep (a @ sep # b) = a # split sep b"
  by (induction a) auto

lemma split_join:
  "ps \<noteq> [] \<Longrightarrow> \<forall>p \<in> set ps. CHR '';'' \<notin> set p \<Longrightarrow>
   split CHR '';'' (join ''; '' ps) = hd ps # map ((#) CHR '' '') (tl ps)"
proof (induction "''; ''" ps rule: join.induct)
  case 1
  then show ?case by simp
next
  case (2 p)
  then show ?case by (simp add: split_notin)
next
  case (3 p q ps)
  have "split CHR '';'' (p @ CHR '';'' # CHR '' '' # join ''; '' (q # ps))
      = p # split CHR '';'' (CHR '' '' # join ''; '' (q # ps))"
    using 3 by (intro split_append) simp
  moreover have "split CHR '';'' (join ''; '' (q # ps)) = q # map ((#) CHR '' '') ps"
    using 3 by simp
  ultimately show ?case by simp
qed

section \<open>Cookie header round trip\<close>

lemma split_named:
  assumes nm: "name \<noteq> []" "CHR ''='' \<notin> set name" "plain (hd name)" and v: "v \<noteq> []"
  shows "split CHR ''='' (trim (name @ ''='' @ encode_octets v)) = [name, encode_octets v]"
    and "split CHR ''='' (trim (CHR '' '' # name @ ''='' @ encode_octets v)) = [name, encode_octets v]"
proof -
  define s where "s = name @ ''='' @ encode_octets v"
  have e: "encode_octets v \<noteq> []" using v by (rule encode_octets_nonempty)
  have s: "s \<noteq> []" using nm(1) by (simp add: s_def)
  have h: "plain (hd s)" using nm(1,3) by (simp add: s_def)
  have "last s = last (encode_octets v)" using e by (simp add: s_def)
  then have l: "plain (last s)"
    using e encode_octets_chars [of "last (encode_octets v)" v] unescaped_plain by simp
  have "CHR ''='' \<notin> set (encode_octets v)"
    using encode_octets_chars unescaped_not_sep by blast
  then have sp: "split CHR ''='' s = [name, encode_octets v]"
    using nm(2) by (simp add: s_def split_append split_notin)
  show "split CHR ''='' (trim (name @ ''='' @ encode_octets v)) = [name, encode_octets v]"
    using trim_plain(1) [OF s h l] sp by (simp add: s_def)
  show "split CHR ''='' (trim (CHR '' '' # name @ ''='' @ encode_octets v)) = [name, encode_octets v]"
    using trim_plain(2) [OF s h l] sp by (simp add: s_def)
qed

lemma parse_pair_session:
  assumes "well_formed v" "v \<noteq> []"
  shows "parse_pair (pair_of ''__Secure-next-auth.session-token'' v) c
           = Inr (c\<lparr>sessionToken := Some v\<rparr>)"
    and "parse_pair (CHR '' '' # pair_of ''__Secure-next-auth.session-token'' v) c
           = Inr (c\<lparr>sessionToken := Some v\<rparr>)"
proof -
  have nm: "''__Secure-next-auth.session-token'' \<noteq> []"
    "CHR ''='' \<notin> set ''__Secure-next-auth.session-token''"
    "plain (hd ''__Secure-next-auth.session-token'')"
    by (simp_all add: plain_def ascii_ws_def code_def)
  have e: "encode_octets v \<noteq> []" using assms(2) by (rule encode_octets_nonempty)
  show "parse_pair (pair_of ''__Secure-next-auth.session-token'' v) c
           = Inr (c\<lparr>sessionToken := Some v\<rparr>)"
    unfolding parse_pair_def pair_of_def split_named(1) [OF nm assms(2)]
    using e decode_encode [OF assms(1)] by simp
  show "parse_pair (CHR '' '' # pair_of ''__Secure-next-auth.session-token'' v) c
           = Inr (c\<lparr>sessionToken := Some v\<rparr>)"
    unfolding parse_pair_def pair_of_def split_named(2) [OF nm assms(2)]
    using e decode_encode [OF assms(1)] by simp
qed

lemma parse_pair_csrf:
  assumes "well_formed v" "v \<noteq> []"
  shows "parse_pair (pair_of ''__Host-next-auth.csrf-token'' v) c
           = Inr (c\<lparr>csrfToken := Some v\<rparr>)"
    and "parse_pair (CHR '' '' # pair_of ''__Host-next-auth.csrf-token'' v) c
           = Inr (c\<lparr>csrfToken := Some v\<rparr>)"
proof -
  have nm: "''__Host-next-auth.csrf-token'' \<noteq> []"
    "CHR ''='' \<notin> set ''__Host-next-auth.csrf-token''"
    "plain (hd ''__Host-next-auth.csrf-token'')"
    by (simp_all add: plain_def ascii_ws_def code_def)
  have e: "encode_octets v \<noteq> []" using assms(2) by (rule encode_octets_nonempty)
  show "parse_pair (pair_of ''__Host-next-auth.csrf-token'' v) c
           = Inr (c\<lparr>csrfToken := Some v\<rparr>)"
    unfolding parse_pair_def pair_of_def split_named(1) [OF nm assms(2)]
    using e decode_encode [OF assms(1)] by simp
  show "parse_pair (CHR '' '' # pair_of ''__Host-next-auth.csrf-token'' v) c
           = Inr (c\<lparr>csrfToken := Some v\<rparr>)"
    unfolding parse_pair_def pair_of_def split_named(2) [OF nm assms(2)]
    using e decode_encode [OF assms(1)] by simp
qed

lemma parse_pair_callback:
  assumes "well_formed v" "v \<noteq> []"
  shows "parse_pair (pair_of ''__Secure-next-auth.callback-url'' v) c
           = Inr (c\<lparr>callbackUrl := Some v\<rparr>)"
    and "parse_pair (CHR '' '' # pair_of ''__Secure-next-auth.callback-url'' v) c
           = Inr (c\<lparr>callbackUrl := Some v\<rparr>)"
proof -
  have nm: "''__Secure-next-auth.callback-url'' \<noteq> []"
    "CHR ''='' \<notin> set ''__Secure-next-auth.callback-url''"
    "plain (hd ''__Secure-next-auth.callback-url'')"
    by (simp_all add: plain_def ascii_ws_def code_def)
  have e: "encode_octets v \<noteq> []" using assms(2) by (rule encode_octets_nonempty)
  show "parse_pair (pair_of ''__Secure-next-auth.callback-url'' v) c
           = Inr (c\<lparr>callbackUrl := Some v\<rparr>)"
    unfolding parse_pair_def pair_of_def split_named(1) [OF nm assms(2)]
    using e decode_encode [OF assms(1)] by simp
  show "parse_pair (CHR '' '' # pair_of ''__Secure-next-auth.callback-url'' v) c
           = Inr (c\<lparr>callbackUrl := Some v\<rparr>)"
    unfolding parse_pair_def pair_of_def split_named(2) [OF nm assms(2)]
    using e decode_encode [OF assms(1)] by simp
qed

lemma parse_pair_empty: "parse_pair [] c = Inr c"
  by (simp add: parse_pair_def trim_Nil)

lemma cookie_part_cases:
  "token_ok t \<Longrightarrow> cookie_part name t =
     (case t of None \<Rightarrow> Inr []
      | Some s \<Rightarrow> if well_formed s then Inr [pair_of name s] else Inl URIError)"
  by (auto simp: cookie_part_def token_ok_def encodeURIComponent_def pair_of_def
      split: option.splits)

lemma sep_notin_part:
  "CHR '';'' \<notin> set name \<Longrightarrow> CHR '';'' \<notin> set (pair_of name s)"
  using encode_octets_chars unescaped_not_sep by (fastforce simp: pair_of_def)

lemma split_Cons_append:
  "c \<noteq> sep \<Longrightarrow> sep \<notin> set a \<Longrightarrow> split sep (c # a @ sep # b) = (c # a) # split sep b"
  using split_append [of sep "c # a" b] by simp

lemma split_Cons_notin:
  "c \<noteq> sep \<Longrightarrow> sep \<notin> set a \<Longrightarrow> split sep (c # a) = [c # a]"
  using split_notin [of sep "c # a"] by simp

text \<open>
  C10. For every cookie state whose three tokens are absent or non-empty, the header written
  by \<open>getCookieHeader\<close> is read back by \<open>parseCookies\<close> as exactly the same tokens,
  whatever characters the values contain. A header is written whenever no token has an
  unpaired surrogate (\<open>encodeURIComponent\<close> throws a URIError on those).
\<close>

theorem cookie_header_roundtrip:
  assumes ok: "token_ok (sessionToken c)" "token_ok (csrfToken c)" "token_ok (callbackUrl c)"
  shows "(token_wf (sessionToken c) \<and> token_wf (csrfToken c) \<and> token_wf (callbackUrl c)
            \<longrightarrow> (\<exists>h. getCookieHeader c = Inr h))
       \<and> (\<forall>h. getCookieHeader c = Inr h \<longrightarrow> parseCookies h = Inr c)"
proof (cases c)
  case (fields s t u)
  have n1: "CHR '';'' \<notin> set ''__Secure-next-auth.session-token''"
   and n2: "CHR '';'' \<notin> set ''__Host-next-auth.csrf-token''"
   and n3: "CHR '';'' \<notin> set ''__Secure-next-auth.callback-url''" by simp_all
  note sp = sep_notin_part [OF n1] sep_notin_part [OF n2] sep_notin_part [OF n3]
  note pp = parse_pair_session parse_pair_csrf parse_pair_callback parse_pair_empty
  show ?thesis
    using ok unfolding fields
    by (cases s; cases t; cases u)
       (auto simp: getCookieHeader_def cookie_part_cases token_wf_def token_ok_def
          parseCookies_def no_cookies_def split_append split_notin split_Cons_append
          split_Cons_notin sp pp
          simp del: split.simps split: if_splits)
qed

theorem cookie_header_roundtrip_witness:
  "token_ok (sessionToken \<lparr>sessionToken = Some (''a=b;c d'' @ [CHR 0xC3, CHR 0xA9]),
       csrfToken = None, callbackUrl = Some ''https://x/?y=1''\<rparr>)
   \<and> (\<exists>h. getCookieHeader \<lparr>sessionToken = Some (''a=b;c d'' @ [CHR 0xC3, CHR 0xA9]),
              csrfToken = None, callbackUrl = Some ''https://x/?y=1''\<rparr> = Inr h
          \<and> parseCookies h = Inr \<lparr>sessionToken = Some (''a=b;c d'' @ [CHR 0xC3, CHR 0xA9]),
              csrfToken = None, callbackUrl = Some ''https://x/?y=1''\<rparr>)"
proof -
  define c where "c = \<lparr>sessionToken = Some (''a=b;c d'' @ [CHR 0xC3, CHR 0xA9]),
       csrfToken = None, callbackUrl = Some ''https://x/?y=1''\<rparr>"
  have ok: "token_ok (sessionToken c)" "token_ok (csrfToken c)" "token_ok (callbackUrl c)"
    by (simp_all add: c_def token_ok_def)
  have wf: "token_wf (sessionToken c)" "token_wf (csrfToken c)" "token_wf (callbackUrl c)"
    by (simp_all add: c_def token_wf_def leading_ones_def is_cont_def code_def)
  from cookie_header_roundtrip [OF ok] wf
  have "\<exists>h. getCookieHeader c = Inr h \<and> parseCookies h = Inr c" by blast
  with ok(1) show ?thesis unfolding c_def by blast
qed

section \<open>Blank cookie blobs\<close>

lemma trimStart_ascii_ws: "\<forall>c \<in> set s. ascii_ws c \<Longrightarrow> trimStart s = []"
proof (induction s)
  case Nil
  then show ?case by (simp add: trimStart_Nil)
next
  case (Cons c cs)
  then have "ws_len (c # cs) = 1"
    by (cases "c # cs" rule: ws_len.cases) auto
  with Cons show ?case by (subst trimStart.simps) simp
qed

lemma trim_ascii_ws: "\<forall>c \<in> set s. ascii_ws c \<Longrightarrow> trim s = []"
  by (simp add: trim_def trimStart_ascii_ws trimEnd_rev_Nil)

text \<open>
  C5. Setting an empty or whitespace-only cookie blob changes nothing: the \<open>Cookie\<close> header of
  the HTTP client, the NextAuth tokens and the cookie blob of the tRPC client are what they
  were, and no exception is raised. A blob is blank when \<open>trim\<close> leaves nothing of it, which
  is the test the code makes; a blob of spaces, tabs and line breaks is one.
\<close>

theorem setCookies_blank_unchanged:
  assumes "trim cookies = []"
  shows "setCookies cookies api = (api, None)
       \<and> httpClient_Cookie (fst (setCookies cookies api)) = httpClient_Cookie api
       \<and> nextAuth_cookies (fst (setCookies cookies api)) = nextAuth_cookies api
       \<and> trpcClient_allCookies (fst (setCookies cookies api)) = trpcClient_allCookies api"
  using assms by (simp add: setCookies_def)

theorem setCookies_blank_unchanged_witness:
  "trim [CHR '' '', CHR 0x09, CHR 0x0A] = []
   \<and> setCookies [CHR '' '', CHR 0x09, CHR 0x0A]
        \<lparr>httpClient_Cookie = Some ''a=1'',
         nextAuth_cookies = \<lparr>sessionToken = Some ''t'', csrfToken = None, callbackUrl = None\<rparr>,
         trpcClient_allCookies = ''a=1''\<rparr>
     = (\<lparr>httpClient_Cookie = Some ''a=1'',
         nextAuth_cookies = \<lparr>sessionToken = Some ''t'', csrfToken = None, callbackUrl = None\<rparr>,
         trpcClient_allCookies = ''a=1''\<rparr>, None)"
proof -
  have h: "trim [CHR '' '', CHR 0x09, CHR 0x0A] = []"
    by (rule trim_ascii_ws) (simp add: ascii_ws_def code_def)
  show ?thesis using h setCookies_blank_unchanged [OF h] by simp
qed

section \<open>Validation of date ranges\<close>

lemma fl_nonneg: "0 \<le> x \<Longrightarrow> 0 \<le> fl x"
  using fl_grid_ge [of x "binade \<bar>x\<bar> - 52" 0] by simp

lemma fl_nonpos: "x \<le> 0 \<Longrightarrow> fl x \<le> 0"
  using fl_grid_le [of x "binade \<bar>x\<bar> - 52" 0] by simp

lemma diffDays_less_1:
  fixes tf tt :: int
  assumes tf: "\<bar>tf\<bar> \<le> 8640000000000000" and tt: "\<bar>tt\<bar> \<le> 8640000000000000"
  shows "fl (fl (of_int tt - of_int tf) / 86400000) < 1 \<longleftrightarrow> tt - tf < 86400000"
proof -
  define x :: rat where "x = of_int tt - of_int tf"
  have xi: "x = of_int (tt - tf)" by (simp add: x_def)
  have "\<bar>tt - tf\<bar> \<le> 17280000000000000" using tf tt by linarith
  then have "\<bar>rat_of_int (tt - tf)\<bar> \<le> rat_of_int 17280000000000000"
    by (simp only: of_int_abs [symmetric] of_int_le_iff)
  then have xb: "\<bar>x\<bar> \<le> 17280000000000000" by (simp add: xi)
  show ?thesis
  proof (cases "tt - tf < 86400000")
    case False
    then have "86400000 \<le> tt - tf" by simp
    then have "rat_of_int 86400000 \<le> of_int (tt - tf)" by (simp only: of_int_le_iff)
    then have x1: "86400000 \<le> x" by (simp add: xi)
    then have "0 < \<bar>x\<bar>" by simp
    moreover have "\<bar>x\<bar> < pow2 54" using xb by (simp add: pow2_def)
    ultimately have "binade \<bar>x\<bar> < 54" by (rule binade_less)
    then have j: "binade \<bar>x\<bar> - 52 \<le> 1" by simp
    have "of_int 43200000 * pow2 1 \<le> fl x"
      using x1 by (intro fl_grid_ge [OF j]) (simp add: pow2_def)
    then have d1: "86400000 \<le> fl x" by (simp add: pow2_def)
    have "fl x \<le> of_int 8640000000000000 * pow2 1"
      using xb by (intro fl_grid_le [OF j]) (simp add: pow2_def)
    then have d2: "fl x \<le> 17280000000000000" by (simp add: pow2_def)
    define y where "y = fl x / 86400000"
    have y1: "1 \<le> y" using d1 by (simp add: y_def)
    have y2: "y \<le> 200000000" using d2 by (simp add: y_def)
    have "0 < \<bar>y\<bar>" using y1 by simp
    moreover have "\<bar>y\<bar> < pow2 53" using y1 y2 by (simp add: pow2_def)
    ultimately have "binade \<bar>y\<bar> < 53" by (rule binade_less)
    then have "binade \<bar>y\<bar> - 52 \<le> 0" by simp
    then have "of_int 1 * pow2 0 \<le> fl y"
      using y1 by (intro fl_grid_ge) simp_all
    then have "\<not> fl y < 1" by simp
    with False show ?thesis by (simp add: x_def [symmetric] y_def [symmetric])
  next
    case True
    then have "tt - tf \<le> 86399999" by simp
    then have "rat_of_int (tt - tf) \<le> of_int 86399999" by (simp only: of_int_le_iff)
    then have x1: "x \<le> 86399999" by (simp add: xi)
    define y where "y = fl x / 86400000"
    have "fl y < 1"
    proof (cases "x \<le> 0")
      case True
      then have "fl x \<le> 0" by (rule fl_nonpos)
      then have "y \<le> 0" by (simp add: y_def divide_le_0_iff)
      then have "fl y \<le> 0" by (rule fl_nonpos)
      then show ?thesis by simp
    next
      case False
      then have "0 < \<bar>x\<bar>" by simp
      moreover have "\<bar>x\<bar> < pow2 27" using False x1 by (simp add: pow2_def)
      ultimately have "binade \<bar>x\<bar> < 27" by (rule binade_less)
      then have j: "binade \<bar>x\<bar> - 52 \<le> 0" by simp
      have "fl x \<le> of_int 86399999 * pow2 0"
        using x1 by (intro fl_grid_le [OF j]) simp
      then have d1: "fl x \<le> 86399999" by simp
      have d0: "0 \<le> fl x" using False by (intro fl_nonneg) simp
      have y0: "0 \<le> y" using d0 by (simp add: y_def)
      have y1: "y \<le> 86399999 / 86400000" using d1 by (simp add: y_def)
      show ?thesis
      proof (cases "y = 0")
        case True
        then show ?thesis by (simp add: fl_def)
      next
        case False
        with y0 have "0 < \<bar>y\<bar>" by simp
        moreover have "\<bar>y\<bar> < pow2 0" using y0 y1 by simp
        ultimately have "binade \<bar>y\<bar> < 0" by (rule binade_less)
        then have j: "binade \<bar>y\<bar> - 52 \<le> - 53" by simp
        have "fl y \<le> of_int (2 ^ 53 - 1) * pow2 (- 53)"
          using y1 by (intro fl_grid_le [OF j]) (simp add: pow2_def)
        then show ?thesis by (simp add: pow2_def)
      qed
    qed
    with True show ?thesis by (simp add: x_def [symmetric] y_def [symmetric])
  qed
qed

lemma is_Date_of_string: "is_Date (Date_of_string h s)"
  by (simp add: Date_of_string_def is_Date_def TimeClip_def split: option.splits)

lemma createDateRange_to_Date:
  assumes "is_Date (to_Date h fromDate)" and "is_Date (to_Date h toDate)"
  shows "createDateRange h fromDate toDate
       = validated_range (to_Date h fromDate) (to_Date h toDate)"
proof (cases "to_Date h fromDate")
  case Invalid_Date
  then show ?thesis by (simp add: createDateRange_def getTime_def validated_range_def)
next
  case f: (Time_Value tf)
  show ?thesis
  proof (cases "to_Date h toDate")
    case Invalid_Date
    then show ?thesis by (simp add: createDateRange_def getTime_def f validated_range_def)
  next
    case t: (Time_Value tt)
    have "\<bar>tf\<bar> \<le> 8640000000000000" "\<bar>tt\<bar> \<le> 8640000000000000"
      using assms by (simp_all add: f t is_Date_def)
    then have "fl (fl (of_int tt - of_int tf) / 86400000) < 1 \<longleftrightarrow> tt - tf < 86400000"
      by (rule diffDays_less_1)
    then show ?thesis
      by (simp add: createDateRange_def getTime_def f t Let_def validated_range_def)
  qed
qed

text \<open>
  C8. \<open>createDateRange\<close> throws exactly when one of the two dates is ``Invalid Date'' (a
  string that does not parse, or such a \<open>Date\<close>) or \<open>to\<close> is less than one day after
  \<open>from\<close>, and otherwise returns the range of the two dates: a \<open>Date\<close> argument as it is,
  a string argument as the \<open>Date\<close> made from it. The function calls nothing but the date
  constructor. The hypotheses say that a \<open>Date\<close> argument holds a time value of the range
  every \<open>Date\<close> has.
\<close>

theorem createDateRange_validation:
  assumes "is_Date d1" and "is_Date d2"
  shows "createDateRange h (Inr d1) (Inr d2) = validated_range d1 d2
       \<and> createDateRange h (Inl s1) (Inr d2) = validated_range (Date_of_string h s1) d2
       \<and> createDateRange h (Inr d1) (Inl s2) = validated_range d1 (Date_of_string h s2)
       \<and> createDateRange h (Inl s1) (Inl s2)
           = validated_range (Date_of_string h s1) (Date_of_string h s2)"
  using assms
    createDateRange_to_Date [of h "Inr d1" "Inr d2"]
    createDateRange_to_Date [of h "Inl s1" "Inr d2"]
    createDateRange_to_Date [of h "Inr d1" "Inl s2"]
    createDateRange_to_Date [of h "Inl s1" "Inl s2"]
  by (simp add: to_Date_def is_Date_of_string)

theorem createDateRange_validation_witness:
  "is_Date (Time_Value 0) \<and> is_Date (Time_Value 86400000)
   \<and> createDateRange example_host (Inr (Time_Value 0)) (Inr (Time_Value 86400000))
       = Inr \<lparr>range_from = Time_Value 0, range_to = Time_Value 86400000\<rparr>
   \<and> createDateRange example_host (Inl ''2024-01-15'') (Inr (Time_Value 86400000))
       = Inl (Error too_close)
   \<and> createDateRange example_host (Inr (Time_Value 0)) (Inl ''2024-01-17'')
       = Inr \<lparr>range_from = Time_Value 0, range_to = Time_Value 1705449600000\<rparr>
   \<and> createDateRange example_host (Inl ''2024-01-15'') (Inl ''2024-01-17'')
       = Inr \<lparr>range_from = Time_Value 1705276800000, range_to = Time_Value 1705449600000\<rparr>
   \<and> createDateRange example_host (Inr (Time_Value 0)) (Inr (Time_Value 86399999))
       = Inl (Error too_close)
   \<and> createDateRange example_host (Inr (Time_Value 0)) (Inr Invalid_Date)
       = Inl (Error ''Invalid date format provided'')
   \<and> createDateRange example_host (Inl ''2024-01-15'') (Inl ''soon'')
       = Inl (Error ''Invalid date format provided'')"
proof -
  have a: "Date_of_string example_host ''2024-01-15'' = Time_Value 1705276800000"
    by code_simp
  have b: "Date_of_string example_host ''2024-01-17'' = Time_Value 1705449600000"
    by code_simp
  have c: "Date_of_string example_host ''soon'' = Invalid_Date"
    by code_simp
  have d: "is_Date (Time_Value 0)" "is_Date (Time_Value 86400000)" "is_Date (Time_Value 86399999)"
    "is_Date Invalid_Date"
    by (simp_all add: is_Date_def)
  show ?thesis
    using createDateRange_validation
        [of "Time_Value 0" "Time_Value 86400000" example_host "''2024-01-15''" "''2024-01-17''"]
      createDateRange_validation
        [of "Time_Value 0" "Time_Value 86399999" example_host "''2024-01-15''" "''soon''"]
      createDateRange_validation
        [of "Time_Value 0" "Invalid_Date" example_host "''2024-01-15''" "''soon''"]
    by (simp add: a b c d validated_range_def)
qed
section \<open>All-day events\<close>
















section \<open>The endpoint sweep and HTTP 401\<close>

text \<open>
  No call ends with the error that stops the sweep: the interceptor has replaced a 401 by an
  \<open>Error\<close> without a \<open>response\<close> before the sweep sees it.
\<close>

lemma request_never_stops: "request r = Inl e \<Longrightarrow> \<not> stops_sweep e"
  by (auto simp: request_def response_interceptor_def unwrap_result_def stops_sweep_def
      split: http_reply.splits if_splits sum.splits)

lemma call_never_stops: "call c = Inl e \<Longrightarrow> \<not> stops_sweep e"
  by (auto simp: call_def split: sum.splits dest: request_never_stops)

lemma sweep_continues_after_failure:
  "call c = Inl e \<Longrightarrow>
   tryMultipleNewsEndpoints (c # cs)
     = (fst (tryMultipleNewsEndpoints cs), endpoint c # snd (tryMultipleNewsEndpoints cs))"
  using call_never_stops [of c e] by (simp split: prod.splits)

text \<open>
  C2. The claim is that a candidate failing with HTTP 401 stops the sweep, so that no later
  candidate is attempted, while 404, 403 and 5xx let it continue. The sweep does test for
  401 and \<open>break\<close>, but the error it tests never carries the status: after a candidate
  refused with 401 the next one is attempted, exactly as after 404, 403 and 500, and its
  data is returned.
\<close>

theorem sweep_continues_after_401:
  "tryMultipleNewsEndpoints [refused ''first'' 401, answered ''second'']
     = (Some (Arr [Obj [(''id'', Str ''7'')]]), [''first'', ''second''])
   \<and> tryMultipleNewsEndpoints [refused ''first'' 404, answered ''second'']
     = (Some (Arr [Obj [(''id'', Str ''7'')]]), [''first'', ''second''])
   \<and> tryMultipleNewsEndpoints [refused ''first'' 403, answered ''second'']
     = (Some (Arr [Obj [(''id'', Str ''7'')]]), [''first'', ''second''])
   \<and> tryMultipleNewsEndpoints [refused ''first'' 500, answered ''second'']
     = (Some (Arr [Obj [(''id'', Str ''7'')]]), [''first'', ''second''])"
  by (simp add: refused_def answered_def call_def request_def response_interceptor_def
      unwrap_result_def stops_sweep_def)

section \<open>Reference markers in the detail page\<close>

lemma matches_two:
  "map fst (match_all push_rx (page [fragment_news, fragment_hello]))
     = [push_call fragment_news, push_call fragment_hello]"
  by code_simp

lemma scan_two:
  "scan_push_calls [push_call fragment_news, push_call fragment_hello] (None, [])
     = (Some (Arr [news_7]), [])"
  by code_simp

lemma hello_not_a_marker:
  "match_first reference_rx ''9:Hello'' = None"
  "match_first reference_rx ''9:T5,'' \<noteq> None"
  by code_simp+

lemma array_has_no_description:
  "array_index ''description'' = None" "array_index ''title'' = None"
  "array_index ''id'' = None" "array_index ''publishedAt'' = None"
  "array_index ''microCmsId'' = None" "array_index ''menuName'' = None"
  "array_index ''isImportant'' = None" "array_index ''isByMentor'' = None"
  "array_index ''attachments'' = None" "array_index ''relatedEvents'' = None"
  "array_index ''targetUserQueryId'' = None"
  by code_simp+

lemma decode_hello: "decodeHtmlContent ''Hello'' = ''Hello''"
  by code_simp

lemma decode_bye: "decodeHtmlContent ''Bye'' = ''Bye''"
  by code_simp

lemma decode_empty: "decodeHtmlContent [] = []"
  by (simp add: decodeHtmlContent_def)

lemma matches_marker:
  "map fst (match_all push_rx (page [fragment_record, fragment_marker, fragment_content]))
     = [push_call fragment_record, push_call fragment_marker, push_call fragment_content]"
  by code_simp

lemma scan_marker:
  "scan_push_calls
     [push_call fragment_record, push_call fragment_marker, push_call fragment_content] (None, [])
     = (Some news_7, [(''9:T5'', ''Hello'')])"
  by code_simp

lemma matches_two_markers:
  "map fst (match_all push_rx
     (page [fragment_record, fragment_other_marker, fragment_other_content, fragment_marker,
            fragment_content]))
     = [push_call fragment_record, push_call fragment_other_marker,
        push_call fragment_other_content, push_call fragment_marker, push_call fragment_content]"
  by code_simp

lemma scan_two_markers:
  "scan_push_calls
     [push_call fragment_record, push_call fragment_other_marker,
      push_call fragment_other_content, push_call fragment_marker, push_call fragment_content]
     (None, [])
     = (Some news_7, [(''8:T3'', ''Bye''), (''9:T5'', ''Hello'')])"
  by code_simp

lemma news_7_properties:
  "property news_7 ''description'' = Str ''see 9:T5,''"
  "property news_7 ''id'' = Str ''7''"
  "truthy (Str ''see 9:T5,'')" "truthy (Str ''7'')"
  by code_simp+

lemma description_names_marker:
  "referenced_content (Str ''see 9:T5,'') [(''9:T5'', ''Hello'')] = Inr ''Hello''"
  "referenced_content (Str ''see 9:T5,'') [(''8:T3'', ''Bye''), (''9:T5'', ''Hello'')]
     = Inr ''Hello''"
  by code_simp+

text \<open>
  With the record as the array under \<open>news\<close>, as the claim writes it, the record found is the
  array, which has no description: the marker in the description is not looked up, and the
  content is that of the reference recorded first.
\<close>

lemma matches_array_record:
  "map fst (match_all push_rx
     (page [fragment_news, fragment_other_marker, fragment_other_content, fragment_marker,
            fragment_content]))
     = [push_call fragment_news, push_call fragment_other_marker,
        push_call fragment_other_content, push_call fragment_marker, push_call fragment_content]"
  by code_simp

lemma scan_array_record:
  "scan_push_calls
     [push_call fragment_news, push_call fragment_other_marker,
      push_call fragment_other_content, push_call fragment_marker, push_call fragment_content]
     (None, [])
     = (Some (Arr [news_7]), [(''8:T3'', ''Bye''), (''9:T5'', ''Hello'')])"
  by code_simp

lemma array_record_takes_first_reference:
  "map_option detail_content
     (parseNewsDetailFromHtml h
        (page [fragment_news, fragment_other_marker, fragment_other_content, fragment_marker,
               fragment_content]) ''7'')
     = Some (Str ''Bye'')"
  by (simp add: parseNewsDetailFromHtml_def matches_array_record scan_array_record
      array_has_no_description decode_bye or_else_def Let_def del: scan_push_calls.simps)

text \<open>
  C1. The claim is that for the two fragments
  \<^verbatim>\<open>[1,"5:[[\"$\",\"$L1\",null,{\"news\":[{\"id\":\"7\",\"title\":\"A\",\"description\":\"see 9:T5,\"}]}]]"]\<close>
  and \<^verbatim>\<open>[1,"9:Hello"]\<close> the detail extractor returns the content \<open>Hello\<close> for the news item
  7. It does not: a reference is recorded only for a fragment whose whole payload is a marker
  such as \<^verbatim>\<open>9:T5,\<close>, with the payload of the next fragment as its content, and the payload
  \<^verbatim>\<open>9:Hello\<close> is no marker. As amended: when the record is the object under \<open>news\<close>, the
  marker is a fragment of its own, \<^verbatim>\<open>[1,"9:T5,"]\<close>, and the fragment after it is
  \<^verbatim>\<open>[1,"Hello"]\<close>, the content is \<open>Hello\<close> for the news item 7; it is the content of the
  reference that the description names, also when another reference is recorded before it.
\<close>

theorem detail_of_marker_fragments:
  "(\<exists>d. parseNewsDetailFromHtml h
           (page [fragment_record, fragment_marker, fragment_content]) ''7'' = Some d
        \<and> detail_content d = Str ''Hello'' \<and> detail_id d = Str ''7'')
   \<and> (\<exists>d. parseNewsDetailFromHtml h
           (page [fragment_record, fragment_other_marker, fragment_other_content,
                  fragment_marker, fragment_content]) ''7'' = Some d
        \<and> detail_content d = Str ''Hello'' \<and> detail_id d = Str ''7'')"
  by (simp add: parseNewsDetailFromHtml_def matches_marker scan_marker matches_two_markers
      scan_two_markers news_7_properties description_names_marker decode_hello or_else_def
      Let_def del: scan_push_calls.simps referenced_content.simps)

text \<open>The content for the two fragments of the claim is empty, not \<open>Hello\<close>.\<close>

theorem detail_of_two_fragments_counterexample:
  "map_option detail_content
     (parseNewsDetailFromHtml example_host (page [fragment_news, fragment_hello]) ''7'')
     = Some (Str [])
   \<and> map_option detail_content
     (parseNewsDetailFromHtml example_host (page [fragment_news, fragment_hello]) ''7'')
     \<noteq> Some (Str ''Hello'')"
  by (simp add: parseNewsDetailFromHtml_def matches_two scan_two array_has_no_description
      decode_empty or_else_def Let_def del: scan_push_calls.simps)
section \<open>The extraction and the clock\<close>

text \<open>Nothing but \<^verbatim>\<open>new Date()\<close> depends on the clock.\<close>

lemma ToString_clock:
  "ToString (h\<lparr>now := c\<rparr>) v = ToString h v"
  "ToString_elements (h\<lparr>now := c\<rparr>) vs = ToString_elements h vs"
  by (induction h v and h vs rule: ToString_ToString_elements.induct)
     (simp_all add: Number_toString_def)

lemma Date_of_string_clock: "Date_of_string (h\<lparr>now := c\<rparr>) s = Date_of_string h s"
  by (simp add: Date_of_string_def Date_parse_def UTC_def
      cong: option.case_cong prod.case_cong)

lemma Date_new_clock: "Date_new (h\<lparr>now := c\<rparr>) v = Date_new h v"
  by (cases v) (simp_all add: Date_of_string_clock ToString_clock)

lemma item_id_string_clock:
  "item_id_string (h\<lparr>now := c\<rparr>) index item = item_id_string h index item"
  by (simp add: item_id_string_def ToString_clock Let_def)

lemma announcement_clock:
  "same_but_clock h (h\<lparr>now := c\<rparr>) (announcement h k index item)
     (announcement (h\<lparr>now := c\<rparr>) k index item)"
proof (cases "publishedDate h k item = Date_now h k
    \<and> publishedDate (h\<lparr>now := c\<rparr>) k item = Date_now (h\<lparr>now := c\<rparr>) k")
  case True
  then have "announcement (h\<lparr>now := c\<rparr>) k index item
      = (announcement h k index item)\<lparr>publishedAt := Date_now (h\<lparr>now := c\<rparr>) k\<rparr>"
    by (simp add: announcement_def item_id_string_clock ToString_clock)
  moreover have "publishedAt (announcement h k index item) = Date_now h k"
    using True by (simp add: announcement_def)
  ultimately show ?thesis unfolding same_but_clock_def by blast
next
  case False
  then have "publishedDate (h\<lparr>now := c\<rparr>) k item = publishedDate h k item"
    by (auto simp: publishedDate_def Date_new_clock split: if_splits)
  then have "announcement (h\<lparr>now := c\<rparr>) k index item = announcement h k index item"
    by (simp add: announcement_def item_id_string_clock ToString_clock)
  then show ?thesis by (simp add: same_but_clock_def)
qed

lemma transform_from_clock:
  "rel_sum (=) (list_all2 (same_but_clock h (h\<lparr>now := c\<rparr>)))
     (transform_from h k index items) (transform_from (h\<lparr>now := c\<rparr>) k index items)"
proof (induction items arbitrary: index)
  case Nil
  show ?case by simp
next
  case (Cons item items)
  show ?case
    using Cons.IH [of "Suc index"] announcement_clock [of h c "k + index" index item]
    by (cases "transform_from h k (Suc index) items";
        cases "transform_from (h\<lparr>now := c\<rparr>) k (Suc index) items") auto
qed

text \<open>
  A step of a strategy gives, on the two hosts, no result or two lists that agree but for
  the clock, and leaves the same number of readings.
\<close>

lemma try_transform_clock:
  "rel_prod (rel_option (list_all2 (same_but_clock h (h\<lparr>now := c\<rparr>)))) (=)
     (try_transform h newsData k) (try_transform (h\<lparr>now := c\<rparr>) newsData k)"
  using transform_from_clock [of h c k 0 newsData]
  by (cases "transform_from h k 0 newsData";
      cases "transform_from (h\<lparr>now := c\<rparr>) k 0 newsData")
     (auto simp: try_transform_def transformNewsToAnnouncements_def)

lemma first_return_clock:
  assumes "\<And>x k. rel_prod (rel_option R) (=) (f x k) (g x k)"
  shows "rel_prod (rel_option R) (=) (first_return f xs k) (first_return g xs k)"
proof (induction xs arbitrary: k)
  case Nil
  show ?case by simp
next
  case (Cons x xs)
  obtain r k' where f: "f x k = (r, k')" by (cases "f x k")
  obtain r' k'' where g: "g x k = (r', k'')" by (cases "g x k")
  from assms [of x k] have k: "k'' = k'" and r: "rel_option R r r'" by (simp_all add: f g)
  show ?case
  proof (cases r)
    case None
    then have "r' = None" using r by (cases r') simp_all
    then show ?thesis using Cons.IH [of k'] by (simp add: f g k None)
  next
    case (Some a)
    then obtain b where "r' = Some b" "R a b" using r by (cases r') simp_all
    then show ?thesis by (simp add: f g k Some)
  qed
qed

lemma found_news_clock:
  "rel_prod (rel_option (list_all2 (same_but_clock h (h\<lparr>now := c\<rparr>)))) (=)
     (found_news h data k) (found_news (h\<lparr>now := c\<rparr>) data k)"
  by (simp add: found_news_def Let_def try_transform_clock)

lemma prefixed_payload_clock:
  "rel_prod (rel_option (list_all2 (same_but_clock h (h\<lparr>now := c\<rparr>)))) (=)
     (prefixed_payload h s k) (prefixed_payload (h\<lparr>now := c\<rparr>) s k)"
  by (simp add: prefixed_payload_def try_transform_clock
      split: sum.splits jsval.splits option.splits)

lemma unprefixed_payload_clock:
  "rel_prod (rel_option (list_all2 (same_but_clock h (h\<lparr>now := c\<rparr>)))) (=)
     (unprefixed_payload h s k) (unprefixed_payload (h\<lparr>now := c\<rparr>) s k)"
  by (simp add: unprefixed_payload_def found_news_clock split: sum.splits)

lemma then_found_news_clock:
  assumes "rel_prod (rel_option (list_all2 (same_but_clock h (h\<lparr>now := c\<rparr>)))) (=) p q"
  shows "rel_prod (rel_option (list_all2 (same_but_clock h (h\<lparr>now := c\<rparr>)))) (=)
     (case p of (Some r, k') \<Rightarrow> (Some r, k') | (None, k') \<Rightarrow> found_news h data k')
     (case q of (Some r, k') \<Rightarrow> (Some r, k')
              | (None, k') \<Rightarrow> found_news (h\<lparr>now := c\<rparr>) data k')"
proof -
  obtain r k' where p: "p = (r, k')" by (cases p)
  obtain r' k'' where q: "q = (r', k'')" by (cases q)
  from assms have k: "k'' = k'"
    and r: "rel_option (list_all2 (same_but_clock h (h\<lparr>now := c\<rparr>))) r r'"
    by (simp_all add: p q)
  show ?thesis
    using r found_news_clock [of h c data k']
    by (cases r; cases r') (simp_all add: p q k)
qed

lemma push_call_news_clock:
  "rel_prod (rel_option (list_all2 (same_but_clock h (h\<lparr>now := c\<rparr>)))) (=)
     (push_call_news h pushCall k) (push_call_news (h\<lparr>now := c\<rparr>) pushCall k)"
proof -
  have payload: "rel_prod (rel_option (list_all2 (same_but_clock h (h\<lparr>now := c\<rparr>)))) (=)
      (case match_first prefix_rx s of
         Some (m', groups') \<Rightarrow> prefixed_payload h (capture 2 groups') k
       | None \<Rightarrow> unprefixed_payload h s k)
      (case match_first prefix_rx s of
         Some (m', groups') \<Rightarrow> prefixed_payload (h\<lparr>now := c\<rparr>) (capture 2 groups') k
       | None \<Rightarrow> unprefixed_payload (h\<lparr>now := c\<rparr>) s k)" for s
    by (simp add: prefixed_payload_clock unprefixed_payload_clock split: option.splits)
  show ?thesis
    unfolding push_call_news_def
    by (simp add: found_news_clock then_found_news_clock [OF payload]
        split: option.splits sum.splits jsval.splits prod.splits del: rel_prod_sel)
qed

lemma next_data_news_clock:
  "rel_prod (rel_option (list_all2 (same_but_clock h (h\<lparr>now := c\<rparr>)))) (=)
     (next_data_news h html r k) (next_data_news (h\<lparr>now := c\<rparr>) html r k)"
  by (simp add: next_data_news_def Let_def found_news_clock split: option.splits sum.splits)

lemma inline_array_news_clock:
  "rel_prod (rel_option (list_all2 (same_but_clock h (h\<lparr>now := c\<rparr>)))) (=)
     (inline_array_news h m k) (inline_array_news (h\<lparr>now := c\<rparr>) m k)"
  by (simp add: inline_array_news_def Let_def found_news_clock split: sum.splits jsval.splits)

lemma salvaged_news_clock:
  "rel_prod (rel_option (list_all2 (same_but_clock h (h\<lparr>now := c\<rparr>)))) (=)
     (salvaged_news h m k) (salvaged_news (h\<lparr>now := c\<rparr>) m k)"
  by (simp add: salvaged_news_def Let_def found_news_clock split: sum.splits jsval.splits)

lemma then_clock:
  assumes "rel_prod (rel_option R) (=) p q"
    and "\<And>k. rel_prod (rel_option R) (=) (f k) (g k)"
  shows "rel_prod (rel_option R) (=)
     (case p of (Some r, k') \<Rightarrow> (Some r, k') | (None, k') \<Rightarrow> f k')
     (case q of (Some r, k') \<Rightarrow> (Some r, k') | (None, k') \<Rightarrow> g k')"
proof -
  obtain r k' where p: "p = (r, k')" by (cases p)
  obtain r' k'' where q: "q = (r', k'')" by (cases q)
  from assms(1) have k: "k'' = k'" and r: "rel_option R r r'" by (simp_all add: p q)
  show ?thesis
    using r assms(2) [of k'] by (cases r; cases r') (simp_all add: p q k)
qed

lemma later_strategies_clock:
  "rel_prod (rel_option (list_all2 (same_but_clock h (h\<lparr>now := c\<rparr>)))) (=)
     (later_strategies h html k) (later_strategies (h\<lparr>now := c\<rparr>) html k)"
  unfolding later_strategies_def
  by (intro then_clock first_return_clock next_data_news_clock inline_array_news_clock
      salvaged_news_clock)

text \<open>The rows of the data grid.\<close>

lemma cell_step_clock:
  assumes "st' = st \<or> (row_publishedAt st = D \<and> st' = st\<lparr>row_publishedAt := D'\<rparr>)"
  shows "cell_step (h\<lparr>now := c\<rparr>) rowId st' cell = cell_step h rowId st cell
     \<or> (row_publishedAt (cell_step h rowId st cell) = D
        \<and> cell_step (h\<lparr>now := c\<rparr>) rowId st' cell
            = (cell_step h rowId st cell)\<lparr>row_publishedAt := D'\<rparr>)"
  using assms
  by (auto simp: cell_step_def Let_def Date_of_string_clock split: option.splits Date.splits)

lemma cells_clock:
  assumes "st' = st \<or> (row_publishedAt st = D \<and> st' = st\<lparr>row_publishedAt := D'\<rparr>)"
  shows "foldl (cell_step (h\<lparr>now := c\<rparr>) rowId) st' cells = foldl (cell_step h rowId) st cells
     \<or> (row_publishedAt (foldl (cell_step h rowId) st cells) = D
        \<and> foldl (cell_step (h\<lparr>now := c\<rparr>) rowId) st' cells
            = (foldl (cell_step h rowId) st cells)\<lparr>row_publishedAt := D'\<rparr>)"
  using assms
proof (induction cells arbitrary: st st')
  case Nil
  then show ?case by simp
next
  case (Cons cell cells)
  from cell_step_clock [OF Cons.prems, where h = h and c = c and rowId = rowId and cell = cell]
  show ?case by (simp only: foldl_Cons) (rule Cons.IH)
qed

lemma row_announcement_clock:
  "rel_option (same_but_clock h (h\<lparr>now := c\<rparr>))
     (row_announcement h k row) (row_announcement (h\<lparr>now := c\<rparr>) k row)"
proof (cases "has_id row")
  case False
  then show ?thesis by (auto simp: row_announcement_def has_id_def split: option.splits)
next
  case True
  then obtain rowId where id: "attr ''data-id'' row = Some rowId" "rowId \<noteq> []"
    by (auto simp: has_id_def split: option.splits)
  define st0 where "st0 = \<lparr>row_title = [], row_category = [], row_publishedAt = Date_now h k,
      row_isImportant = False, row_isUnread = False, row_url = []\<rparr>"
  define st0' where "st0' = \<lparr>row_title = [], row_category = [],
      row_publishedAt = Date_now (h\<lparr>now := c\<rparr>) k,
      row_isImportant = False, row_isUnread = False, row_url = []\<rparr>"
  define cells where "cells = descendants (div_role ''gridcell'') row"
  define st where "st = foldl (cell_step h rowId) st0 cells"
  define st' where "st' = foldl (cell_step (h\<lparr>now := c\<rparr>) rowId) st0' cells"
  have "st0' = st0 \<or> (row_publishedAt st0 = Date_now h k
      \<and> st0' = st0\<lparr>row_publishedAt := Date_now (h\<lparr>now := c\<rparr>) k\<rparr>)"
    by (simp add: st0_def st0'_def)
  from cells_clock [OF this, where h = h and c = c and rowId = rowId and cells = cells]
  have rel: "st' = st \<or> (row_publishedAt st = Date_now h k
      \<and> st' = st\<lparr>row_publishedAt := Date_now (h\<lparr>now := c\<rparr>) k\<rparr>)"
    by (simp add: st_def st'_def)
  have a: "row_announcement h k row =
      (if row_title st = [] then None
       else Some
         \<lparr>news_id = rowId, news_title = Str (row_title st), news_content = Str [],
          publishedAt = row_publishedAt st,
          news_category =
            (if row_category st = [] then Str ''General'' else Str (row_category st)),
          news_priority = (if row_isImportant st then High else Medium),
          news_url = (if row_url st = [] then baseUrl h @ ''/news/'' @ rowId else row_url st),
          more_properties =
            [(''targetAudience'', Arr [Str ''student'']),
             (''menuName'', Str (row_category st)),
             (''isImportant'', Bool (row_isImportant st)),
             (''isUnread'', Bool (row_isUnread st))]\<rparr>)"
    by (simp add: row_announcement_def id Let_def st_def st0_def cells_def)
  have b: "row_announcement (h\<lparr>now := c\<rparr>) k row =
      (if row_title st' = [] then None
       else Some
         \<lparr>news_id = rowId, news_title = Str (row_title st'), news_content = Str [],
          publishedAt = row_publishedAt st',
          news_category =
            (if row_category st' = [] then Str ''General'' else Str (row_category st')),
          news_priority = (if row_isImportant st' then High else Medium),
          news_url = (if row_url st' = [] then baseUrl h @ ''/news/'' @ rowId else row_url st'),
          more_properties =
            [(''targetAudience'', Arr [Str ''student'']),
             (''menuName'', Str (row_category st')),
             (''isImportant'', Bool (row_isImportant st')),
             (''isUnread'', Bool (row_isUnread st'))]\<rparr>)"
    by (simp add: row_announcement_def id Let_def st'_def st0'_def cells_def)
  from rel show ?thesis
  proof
    assume "st' = st"
    then show ?thesis by (simp add: a b same_but_clock_def)
  next
    assume r: "row_publishedAt st = Date_now h k
      \<and> st' = st\<lparr>row_publishedAt := Date_now (h\<lparr>now := c\<rparr>) k\<rparr>"
    show ?thesis
    proof (cases "row_title st = []")
      case True
      then show ?thesis using r by (simp add: a b)
    next
      case False
      have "\<exists>n. publishedAt (the (row_announcement h k row)) = Date_now h n
          \<and> the (row_announcement (h\<lparr>now := c\<rparr>) k row)
            = (the (row_announcement h k row))\<lparr>publishedAt := Date_now (h\<lparr>now := c\<rparr>) n\<rparr>"
        using r False by (intro exI [of _ k]) (simp add: a b)
      then show ?thesis using r False by (simp add: a b same_but_clock_def)
    qed
  qed
qed

lemma rows_announcements_clock:
  "rel_prod (list_all2 (same_but_clock h (h\<lparr>now := c\<rparr>))) (=)
     (rows_announcements h rows k) (rows_announcements (h\<lparr>now := c\<rparr>) rows k)"
proof (induction rows arbitrary: k)
  case Nil
  show ?case by simp
next
  case (Cons row rows)
  show ?case
  proof (cases "has_id row")
    case False
    then show ?thesis using Cons.IH [of k] by simp
  next
    case True
    obtain as k' where a: "rows_announcements h rows (Suc k) = (as, k')"
      by (cases "rows_announcements h rows (Suc k)")
    obtain bs k'' where b: "rows_announcements (h\<lparr>now := c\<rparr>) rows (Suc k) = (bs, k'')"
      by (cases "rows_announcements (h\<lparr>now := c\<rparr>) rows (Suc k)")
    from Cons.IH [of "Suc k"] have k: "k'' = k'"
      and l: "list_all2 (same_but_clock h (h\<lparr>now := c\<rparr>)) as bs" by (simp_all add: a b)
    show ?thesis
      using row_announcement_clock [of h c k row] l
      by (cases "row_announcement h k row"; cases "row_announcement (h\<lparr>now := c\<rparr>) k row")
         (simp_all add: True a b k)
  qed
qed

lemma parseAnnouncementsWithCheerio_clock:
  "rel_prod (list_all2 (same_but_clock h (h\<lparr>now := c\<rparr>))) (=)
     (parseAnnouncementsWithCheerio h html k)
     (parseAnnouncementsWithCheerio (h\<lparr>now := c\<rparr>) html k)"
  by (simp add: parseAnnouncementsWithCheerio_def Let_def rows_announcements_clock)

text \<open>
  C3. The claim is that two runs of the extraction on the same payload give identical
  lists. A record for which the payload has no usable date is given the date of the moment
  it is made, \<^verbatim>\<open>new Date()\<close>, so that two runs at different times differ in it. As amended:
  on a host that differs in nothing but its clock the extraction gives a list of the same
  length whose records are, place by place, equal to those of the first run, or equal but
  for the date where the date in the first run is a reading of the clock; that date is
  then the same reading of the other clock.
\<close>

theorem extraction_same_but_clock:
  "list_all2 (same_but_clock h (h\<lparr>now := clock\<rparr>))
     (parseNewsFromHtml h html) (parseNewsFromHtml (h\<lparr>now := clock\<rparr>) html)"
proof -
  let ?R = "list_all2 (same_but_clock h (h\<lparr>now := clock\<rparr>))"
  let ?h' = "h\<lparr>now := clock\<rparr>"
  define calls where "calls = map fst (match_all push_rx html)"
  obtain r k where p: "first_return (push_call_news h) calls 0 = (r, k)"
    by (cases "first_return (push_call_news h) calls 0")
  obtain r' k' where p': "first_return (push_call_news ?h') calls 0 = (r', k')"
    by (cases "first_return (push_call_news ?h') calls 0")
  have "rel_prod (rel_option ?R) (=)
      (first_return (push_call_news h) calls 0) (first_return (push_call_news ?h') calls 0)"
    by (intro first_return_clock push_call_news_clock)
  then have k: "k' = k" and r: "rel_option ?R r r'" by (simp_all add: p p')
  show ?thesis
  proof (cases r)
    case (Some as)
    then obtain bs where "r' = Some bs" "?R as bs" using r by (cases r') simp_all
    then show ?thesis
      by (simp add: parseNewsFromHtml_def calls_def [symmetric] p p' Some)
  next
    case None
    then have n': "r' = None" using r by (cases r') simp_all
    obtain as k1 where g: "parseAnnouncementsWithCheerio h html k = (as, k1)"
      by (cases "parseAnnouncementsWithCheerio h html k")
    obtain bs k1' where g': "parseAnnouncementsWithCheerio ?h' html k = (bs, k1')"
      by (cases "parseAnnouncementsWithCheerio ?h' html k")
    from parseAnnouncementsWithCheerio_clock [of h clock html k]
    have k1: "k1' = k1" and l: "?R as bs" by (simp_all add: g g')
    show ?thesis
    proof (cases "as = []")
      case False
      then have "bs \<noteq> []" using l by auto
      then show ?thesis
        using False l by (simp add: parseNewsFromHtml_def calls_def [symmetric] p p' None n' k g g')
    next
      case True
      then have e: "bs = []" using l by simp
      obtain s k2 where t: "later_strategies h html k1 = (s, k2)"
        by (cases "later_strategies h html k1")
      obtain s' k2' where t': "later_strategies ?h' html k1 = (s', k2')"
        by (cases "later_strategies ?h' html k1")
      from later_strategies_clock [of h clock html k1]
      have s: "rel_option ?R s s'" by (simp add: t t')
      then show ?thesis
        by (cases s; cases s')
           (simp_all add: parseNewsFromHtml_def calls_def [symmetric] p p' None n' k g g' k1
              True e t t')
    qed
  qed
qed

theorem extraction_same_but_clock_witness:
  "list_all2 (same_but_clock example_host later_host)
     (parseNewsFromHtml example_host (page [fragment_news, fragment_hello]))
     (parseNewsFromHtml later_host (page [fragment_news, fragment_hello]))
   \<and> length (parseNewsFromHtml example_host (page [fragment_news, fragment_hello])) = 1"
proof -
  have "length (parseNewsFromHtml example_host (page [fragment_news, fragment_hello])) = 1"
    by code_simp
  then show ?thesis
    using extraction_same_but_clock
      [of example_host "\<lambda>k. 1700000060000 + int k" "page [fragment_news, fragment_hello]"]
    by (simp add: later_host_def)
qed

text \<open>A minute later the same page gives the record another date.\<close>

theorem extraction_same_but_clock_counterexample:
  "map publishedAt (parseNewsFromHtml example_host (page [fragment_news, fragment_hello]))
     = [Time_Value 1700000000000]
   \<and> map publishedAt (parseNewsFromHtml later_host (page [fragment_news, fragment_hello]))
     = [Time_Value 1700000060000]
   \<and> parseNewsFromHtml example_host (page [fragment_news, fragment_hello])
     \<noteq> parseNewsFromHtml later_host (page [fragment_news, fragment_hello])"
proof -
  have a: "map publishedAt (parseNewsFromHtml example_host (page [fragment_news, fragment_hello]))
     = [Time_Value 1700000000000]" by code_simp
  have b: "map publishedAt (parseNewsFromHtml later_host (page [fragment_news, fragment_hello]))
     = [Time_Value 1700000060000]" by code_simp
  from a b show ?thesis by auto
qed
section \<open>Identifiers and addresses of news items\<close>


























text \<open>
  An upstream \<open>id\<close> that is not of the usual kind: the id of a record is the text of 0,
  and its address is made from its position.
\<close>

lemma id_zero_example:
  "map news_id (projr (fst (transformNewsToAnnouncements example_host 0
       [Obj [(''id'', Num 0)], Obj [(''id'', Num 0)]]))) = [''0'', ''0'']"
  "map news_url (projr (fst (transformNewsToAnnouncements example_host 0
       [Obj [(''id'', Num 0)], Obj [(''id'', Num 0)]])))
     = [''https://nlobby.nnn.ed.jp/news/0'', ''https://nlobby.nnn.ed.jp/news/1'']"
  by code_simp+



end
